theory Spec2Isabelle
  imports Main "HOL-Library.Word"
begin

unbundle bit_operations_syntax

section \<open>Bytes, faults and the byte transport\<close>

text \<open>
  The driver works on \<open>std::vector<uint8_t>\<close>: lists of 8-bit words. Arithmetic on
  \<open>uint8_t\<close> variables wraps modulo 256, as \<open>+\<close> on \<open>8 word\<close> does.
\<close>

type_synonym byte = "8 word"

text \<open>
  Reading a vector outside its bounds, or erasing a range that is not inside it, is
  undefined behaviour in C++. The model stops there with the fault \<open>OutOfRange\<close>.
  A loop whose 32-bit counter would wrap around before the loop ends does not end in
  the source; the model stops there with the fault \<open>IndexWrap\<close>.
\<close>

datatype fault = OutOfRange | IndexWrap

text \<open>
  The byte transport (I2C, SPI or UART) is not part of the driver: it is a parameter.
  A transport has a state of its own (type \<open>'s\<close>), a read that is asked for a number
  of bytes and may time out, and a write.
\<close>

record 's transport =
  transport_read :: "nat \<Rightarrow> 's \<Rightarrow> byte list option \<times> 's"
  transport_write :: "byte list \<Rightarrow> 's \<Rightarrow> 's"

text \<open>
  Modelled from the spec: \<open>read_data(data, len)\<close> is declared in the header
  \<open>pn532.h\<close> and implemented per bus, neither among the sources. The spec gives
  \<open>read(count) -> bytes | timeout-failure\<close> and lets every caller fail on a short
  read. The callers index \<open>data[len]\<close> after \<open>read_data(data, len)\<close>
  (\<open>read_ack_\<close> reads \<open>data[6]\<close> after asking for 6), so a successful read
  fills \<open>data\<close> with \<open>len + 1\<close> bytes: one leading status byte of the bus,
  then \<open>len\<close> bytes of the frame. The count is taken as the caller computes it
  (\<open>6 + len + 2\<close> is at most 262); a declaration that narrows it is not modelled.
\<close>

definition read_data :: "'s transport \<Rightarrow> nat \<Rightarrow> 's \<Rightarrow> byte list option \<times> 's" where
  "read_data tr len st =
     (case transport_read tr (len + 1) st of
        (None, st') \<Rightarrow> (None, st')
      | (Some bs, st') \<Rightarrow>
          if length bs < len + 1 then (None, st') else (Some (take (len + 1) bs), st'))"

definition write_data :: "'s transport \<Rightarrow> byte list \<Rightarrow> 's \<Rightarrow> 's" where
  "write_data tr bs st = transport_write tr bs st"

section \<open>Frame transport\<close>

subsection \<open>The frame builder of \<open>write_command_\<close>\<close>

text \<open>
  \<open>PN532::write_command_\<close> (pn532.cpp, lines 200-235) builds the vector
  \<open>write_data\<close> by \<open>push_back\<close>. \<open>real_length\<close> is a \<open>uint8_t\<close>:
  the size plus one is truncated to 8 bits. \<open>~x + 1\<close> is computed on \<open>int\<close>
  and truncated by \<open>push_back\<close>; on a byte that is \<open>NOT x + 1\<close>. The loop over
  \<open>data\<close> appends each byte and adds it to the running checksum.
\<close>

definition command_frame :: "byte list \<Rightarrow> byte list" where
  "command_frame data =
     (let real_length = (of_nat (length data + 1) :: byte);
          header = [0x00, 0x00, 0xFF, real_length, NOT real_length + 1, 0xD4];
          (body, checksum) =
             foldl (\<lambda>(w, c) dat. (w @ [dat], c + dat)) (header, 0xD4 :: byte) data
      in body @ [NOT checksum + 1, 0x00])"

text \<open>\<open>PN532::read_ack_\<close> (pn532.cpp, lines 237-251).\<close>

definition read_ack_' :: "'s transport \<Rightarrow> 's \<Rightarrow> bool \<times> 's" where
  "read_ack_' tr st =
     (case read_data tr 6 st of
        (None, st') \<Rightarrow> (False, st')
      | (Some data, st') \<Rightarrow>
          (data ! 1 = 0x00 \<and> data ! 2 = 0x00 \<and> data ! 3 = 0xFF \<and> data ! 4 = 0x00 \<and>
           data ! 5 = 0xFF \<and> data ! 6 = 0x00, st'))"

definition write_command_' :: "'s transport \<Rightarrow> byte list \<Rightarrow> 's \<Rightarrow> bool \<times> 's" where
  "write_command_' tr data st = read_ack_' tr (write_data tr (command_frame data) st)"

subsection \<open>The response parser\<close>

text \<open>
  \<open>PN532::read_response_length_\<close> (pn532.cpp, lines 306-335). The preamble test is
  the source's conjunction of three inequalities. The result is a \<open>uint8_t\<close>:
  0 stands for failure.
\<close>

definition read_response_length_' :: "'s transport \<Rightarrow> 's \<Rightarrow> byte \<times> 's" where
  "read_response_length_' tr st =
     (case read_data tr 6 st of
        (None, st') \<Rightarrow> (0, st')
      | (Some data, st') \<Rightarrow>
          if data ! 1 \<noteq> 0x00 \<and> data ! 2 \<noteq> 0x00 \<and> data ! 3 \<noteq> 0xFF then (0, st')
          else
            let valid_header = (data ! 4 + data ! 5 = 0 \<and> data ! 6 = 0xD5)
            in if \<not> valid_header then (0, st')
               else
                 let st'' = write_data tr [0x00, 0x00, 0xFF, 0xFF, 0x00, 0x00] st';
                     full_len = data ! 4;
                     len = full_len - 1
                 in (if full_len = 0 then 0 else len, st''))"

text \<open>
  \<open>PN532::read_response_\<close> (pn532.cpp, lines 253-304). \<open>data\<close> is a reference
  parameter: the model takes its content at the call and returns its content at the
  return, also when the result is \<open>false\<close>. The comparison
  \<open>data[7] == command + 1\<close> is on \<open>int\<close>: \<open>command + 1\<close> does not wrap.
\<close>

definition read_response_' ::
  "'s transport \<Rightarrow> byte \<Rightarrow> byte list \<Rightarrow> 's \<Rightarrow> bool \<times> byte list \<times> 's" where
  "read_response_' tr command data0 st =
     (case read_response_length_' tr st of
        (len, st1) \<Rightarrow>
          if len = 0 then (False, data0, st1)
          else
            (case read_data tr (6 + unat len + 2) st1 of
               (None, st2) \<Rightarrow> (False, data0, st2)
             | (Some data, st2) \<Rightarrow>
                 if data ! 1 \<noteq> 0x00 \<and> data ! 2 \<noteq> 0x00 \<and> data ! 3 \<noteq> 0xFF
                 then (False, data, st2)
                 else
                   let valid_header =
                         (data ! 4 + data ! 5 = 0 \<and> data ! 6 = 0xD5 \<and>
                          unat (data ! 7) = unat command + 1)
                   in if \<not> valid_header then (False, data, st2)
                      else
                        let data1 = drop 6 data;
                            checksum = foldl (\<lambda>c dat. c + dat) (0 :: byte)
                                         (take (unat len + 1) data1);
                            checksum = NOT checksum + 1
                        in if data1 ! (unat len + 1) \<noteq> checksum then (False, data1, st2)
                           else if data1 ! (unat len + 2) \<noteq> 0x00 then (False, data1, st2)
                           else
                             let data2 = drop 2 data1;
                                 data3 = take (length data2 - 2) data2
                             in (True, data3, st2)))"

section \<open>MIFARE Classic sector accessor\<close>

text \<open>
  Modelled from the spec: the command codes and keys are declared in headers that are
  not among the sources (\<open>pn532.h\<close>, \<open>nfc.h\<close>). The values are those of the
  PN532 and MIFARE Classic command sets; the spec fixes only the block size of 16 bytes.
  They matter for the bytes of concrete frames only.
\<close>

definition PN532_COMMAND_RFCONFIGURATION :: byte where
  "PN532_COMMAND_RFCONFIGURATION = 0x32"

definition PN532_COMMAND_INDATAEXCHANGE :: byte where
  "PN532_COMMAND_INDATAEXCHANGE = 0x40"

definition PN532_COMMAND_INLISTPASSIVETARGET :: byte where
  "PN532_COMMAND_INLISTPASSIVETARGET = 0x4A"

definition MIFARE_CMD_AUTH_A :: byte where
  "MIFARE_CMD_AUTH_A = 0x60"

definition MIFARE_CMD_AUTH_B :: byte where
  "MIFARE_CMD_AUTH_B = 0x61"

definition MIFARE_CMD_READ :: byte where
  "MIFARE_CMD_READ = 0x30"

definition MIFARE_CMD_WRITE :: byte where
  "MIFARE_CMD_WRITE = 0xA0"

definition NDEF_KEY :: "byte list" where
  "NDEF_KEY = [0xD3, 0xF7, 0xD3, 0xF7, 0xD3, 0xF7]"

definition DEFAULT_KEY :: "byte list" where
  "DEFAULT_KEY = [0xFF, 0xFF, 0xFF, 0xFF, 0xFF, 0xFF]"

definition BLOCK_SIZE :: nat where
  "BLOCK_SIZE = 16"

text \<open>
  \<open>PN532::read_mifare_classic_block_\<close> (pn532_mifare_classic.cpp, lines 57-74).
  \<open>data\<close> is a reference parameter. \<open>data[0]\<close> is read as soon as
  \<open>read_response_\<close> succeeds; a response without payload leaves \<open>data\<close> empty and
  the read is out of range.
\<close>

definition read_mifare_classic_block_' ::
  "'s transport \<Rightarrow> byte \<Rightarrow> byte list \<Rightarrow> 's \<Rightarrow> fault + (bool \<times> byte list \<times> 's)" where
  "read_mifare_classic_block_' tr block_num data st =
     (case write_command_' tr [PN532_COMMAND_INDATAEXCHANGE, 0x01, MIFARE_CMD_READ, block_num] st of
        (False, st1) \<Rightarrow> Inr (False, data, st1)
      | (True, st1) \<Rightarrow>
          (case read_response_' tr PN532_COMMAND_INDATAEXCHANGE data st1 of
             (False, data1, st2) \<Rightarrow> Inr (False, data1, st2)
           | (True, data1, st2) \<Rightarrow>
               if data1 = [] then Inl OutOfRange
               else if data1 ! 0 \<noteq> 0x00 then Inr (False, data1, st2)
               else Inr (True, drop 1 data1, st2)))"

text \<open>
  Modelled from the spec: \<open>read_tag_\<close> in pn532.cpp calls a variant of
  \<open>read_mifare_classic_block_\<close> that returns the block as a vector, empty on failure
  (the caller tests \<open>data.empty()\<close>); its body is not among the sources. The spec
  gives \<open>read_block(block_number) -> 16 bytes | failure\<close>, with the same success
  condition as the variant above, which the model reuses.
\<close>

definition read_mifare_classic_block_vec ::
  "'s transport \<Rightarrow> byte \<Rightarrow> 's \<Rightarrow> fault + (byte list \<times> 's)" where
  "read_mifare_classic_block_vec tr block_num st =
     (case read_mifare_classic_block_' tr block_num [] st of
        Inl f \<Rightarrow> Inl f
      | Inr (False, data, st1) \<Rightarrow> Inr ([], st1)
      | Inr (True, data, st1) \<Rightarrow> Inr (data, st1))"

text \<open>
  \<open>PN532::auth_mifare_classic_block_\<close> (pn532_mifare_classic.cpp, lines 76-98).
  \<open>key\<close> points to 6 bytes.
\<close>

definition auth_mifare_classic_block_' ::
  "'s transport \<Rightarrow> byte list \<Rightarrow> byte \<Rightarrow> byte \<Rightarrow> byte list \<Rightarrow> 's \<Rightarrow> fault + (bool \<times> 's)" where
  "auth_mifare_classic_block_' tr uid block_num key_num key st =
     (let data = [PN532_COMMAND_INDATAEXCHANGE, 0x01, key_num, block_num] @ take 6 key @ uid
      in case write_command_' tr data st of
           (False, st1) \<Rightarrow> Inr (False, st1)
         | (True, st1) \<Rightarrow>
             (case read_response_' tr PN532_COMMAND_INDATAEXCHANGE [] st1 of
                (False, response, st2) \<Rightarrow> Inr (False, st2)
              | (True, response, st2) \<Rightarrow>
                  if response = [] then Inl OutOfRange
                  else if response ! 0 \<noteq> 0x00 then Inr (False, st2)
                  else Inr (True, st2)))"

text \<open>
  \<open>PN532::write_mifare_classic_block_\<close> (pn532_mifare_classic.cpp, lines 191-211).
\<close>

definition write_mifare_classic_block_' ::
  "'s transport \<Rightarrow> byte \<Rightarrow> byte list \<Rightarrow> 's \<Rightarrow> bool \<times> 's" where
  "write_mifare_classic_block_' tr block_num write_data' st =
     (let data = [PN532_COMMAND_INDATAEXCHANGE, 0x01, MIFARE_CMD_WRITE, block_num] @ write_data'
      in case write_command_' tr data st of
           (False, st1) \<Rightarrow> (False, st1)
         | (True, st1) \<Rightarrow>
             (case read_response_' tr PN532_COMMAND_INDATAEXCHANGE [] st1 of
                (False, response, st2) \<Rightarrow> (False, st2)
              | (True, response, st2) \<Rightarrow> (True, st2)))"

text \<open>
  Modelled from the spec: the block predicates of the \<open>nfc\<close> namespace are not among
  the sources. The spec: a trailer block has a number congruent to 3 modulo 4;
  \<open>is_first_block_of_sector\<close> is true when the number is congruent to 0 modulo 4.
\<close>

definition mifare_classic_is_first_block :: "byte \<Rightarrow> bool" where
  "mifare_classic_is_first_block block_num = (unat block_num mod 4 = 0)"

definition mifare_classic_is_trailer_block :: "byte \<Rightarrow> bool" where
  "mifare_classic_is_trailer_block block_num = (unat block_num mod 4 = 3)"

text \<open>
  The end of each iteration of the block loops (pn532.cpp, lines 387-391 and 483-488;
  pn532_mifare_classic.cpp, lines 47-51 and 246-251): \<open>current_block++\<close>, and once more
  when the result is a trailer block. \<open>current_block\<close> is a \<open>uint8_t\<close> and wraps.
\<close>

definition block_address_advance :: "byte \<Rightarrow> byte" where
  "block_address_advance current_block =
     (let current_block = current_block + 1
      in if mifare_classic_is_trailer_block current_block then current_block + 1
         else current_block)"

text \<open>
  Modelled from the spec: \<open>get_buffer_size\<close> and \<open>get_mifare_classic_buffer_size\<close>
  are not among the sources. The spec: the buffer size is
  \<open>ceil((tlv_header_len + message_length + 1) / 16) * 16\<close>, with a TLV header of 2
  bytes for a message shorter than 255 bytes and of 4 bytes otherwise.
\<close>

definition get_mifare_classic_buffer_size :: "nat \<Rightarrow> nat" where
  "get_mifare_classic_buffer_size message_length =
     (let buffer_size = message_length + (if message_length < 255 then 2 else 4) + 1
      in ((buffer_size + 15) div 16) * 16)"

definition get_buffer_size :: "nat \<Rightarrow> nat" where
  "get_buffer_size message_length = get_mifare_classic_buffer_size message_length"

section \<open>Tag lifecycle coordinator\<close>

text \<open>
  Modelled from the spec: the class \<open>nfc::NfcTag\<close> is not among the sources. The
  driver builds tags with three constructors: from a UID alone, from a UID and a type
  name, and from a UID, a type name and the bytes of the NDEF region. The type names
  used are \<open>nfc::ERROR\<close> and \<open>nfc::MIFARE_CLASSIC\<close>.
\<close>

datatype tag_type = ERROR | MIFARE_CLASSIC

datatype NfcTag =
    NfcTag_uid "byte list"
  | NfcTag_type "byte list" tag_type
  | NfcTag_data "byte list" tag_type "byte list"

datatype tag_class = TAG_TYPE_MIFARE_CLASSIC | TAG_TYPE_2 | TAG_TYPE_UNKNOWN | TAG_TYPE_OTHER

text \<open>
  The helpers of the \<open>nfc\<close> namespace whose behaviour the spec leaves open are
  parameters of the model: the classification of a tag by the length of its UID, the
  TLV locator (message length and start index, or failure), whether a tag carries an
  NDEF message, and the encoding of the message with one empty record.
\<close>

record nfc_helpers =
  guess_tag_type :: "nat \<Rightarrow> tag_class"
  decode_mifare_classic_tlv :: "byte list \<Rightarrow> (nat \<times> byte) option"
  has_ndef_message :: "NfcTag \<Rightarrow> bool"
  empty_record_encoded :: "byte list"

subsection \<open>Reading\<close>

text \<open>
  The block loop shared by \<open>read_tag_\<close> (pn532.cpp, lines 373-392) and
  \<open>read_mifare_classic_tag_\<close> (pn532_mifare_classic.cpp, lines 33-52):
  \<open>while (index < buffer_size) { body; index += 16; advance current_block }\<close>. The
  body is the parameter \<open>body\<close>. \<open>index\<close> is a \<open>uint32_t\<close>; where
  \<open>index += 16\<close> would wrap, the source loops on and the model stops with
  \<open>IndexWrap\<close>.
\<close>

function read_blocks ::
  "(byte \<Rightarrow> byte list \<Rightarrow> 's \<Rightarrow> fault + (byte list \<times> 's)) \<Rightarrow> nat \<Rightarrow> nat \<Rightarrow> byte \<Rightarrow> byte list \<Rightarrow> 's
     \<Rightarrow> fault + (byte list \<times> 's)" where
  "read_blocks body index buffer_size current_block buffer st =
     (if index < buffer_size then
        (case body current_block buffer st of
           Inl f \<Rightarrow> Inl f
         | Inr (buffer', st') \<Rightarrow>
             if 2 ^ 32 \<le> index + BLOCK_SIZE then Inl IndexWrap
             else read_blocks body (index + BLOCK_SIZE) buffer_size
                    (block_address_advance current_block) buffer' st')
      else Inr (buffer, st))"
  by pat_completeness auto
termination
  by (relation "measure (\<lambda>(body, index, buffer_size, current_block, buffer, st). buffer_size - index)")
     (auto simp: BLOCK_SIZE_def)

declare read_blocks.simps [simp del]

text \<open>The body of the loop of \<open>read_tag_\<close> (pn532.cpp, lines 374-384).\<close>

definition read_tag_block ::
  "'s transport \<Rightarrow> byte list \<Rightarrow> byte \<Rightarrow> byte list \<Rightarrow> 's \<Rightarrow> fault + (byte list \<times> 's)" where
  "read_tag_block tr uid current_block buffer st =
     (case (if mifare_classic_is_first_block current_block
            then (case auth_mifare_classic_block_' tr uid current_block MIFARE_CMD_AUTH_A NDEF_KEY st of
                    Inl f \<Rightarrow> Inl f
                  | Inr (ok, st1) \<Rightarrow> Inr st1)
            else Inr st) of
        Inl f \<Rightarrow> Inl f
      | Inr st1 \<Rightarrow>
          (case read_mifare_classic_block_vec tr current_block st1 of
             Inl f \<Rightarrow> Inl f
           | Inr (data, st2) \<Rightarrow>
               if data \<noteq> [] then Inr (buffer @ data, st2) else Inr (buffer, st2)))"

text \<open>
  \<open>PN532::read_tag_\<close> (pn532.cpp, lines 346-404).
  \<open>buffer.erase(buffer.begin(), buffer.begin() + message_start_index)\<close> is defined
  only when the buffer holds at least \<open>message_start_index\<close> bytes.
\<close>

definition read_tag_' ::
  "nfc_helpers \<Rightarrow> 's transport \<Rightarrow> byte list \<Rightarrow> 's \<Rightarrow> fault + (NfcTag \<times> 's)" where
  "read_tag_' nfc tr uid st =
     (let type = guess_tag_type nfc (length uid)
      in if type = TAG_TYPE_MIFARE_CLASSIC then
           (case auth_mifare_classic_block_' tr uid 4 MIFARE_CMD_AUTH_A NDEF_KEY st of
              Inl f \<Rightarrow> Inl f
            | Inr (False, st1) \<Rightarrow> Inr (NfcTag_type uid MIFARE_CLASSIC, st1)
            | Inr (True, st1) \<Rightarrow>
                (case read_mifare_classic_block_vec tr 4 st1 of
                   Inl f \<Rightarrow> Inl f
                 | Inr (data, st2) \<Rightarrow>
                     if data \<noteq> [] then
                       (case decode_mifare_classic_tlv nfc data of
                          None \<Rightarrow> Inr (NfcTag_type uid ERROR, st2)
                        | Some (message_length, message_start_index) \<Rightarrow>
                            (case read_blocks (read_tag_block tr uid) 0
                                    (get_buffer_size message_length) 4 [] st2 of
                               Inl f \<Rightarrow> Inl f
                             | Inr (buffer, st3) \<Rightarrow>
                                 if length buffer < unat message_start_index then Inl OutOfRange
                                 else Inr (NfcTag_data uid MIFARE_CLASSIC
                                             (drop (unat message_start_index) buffer), st3)))
                     else Inr (NfcTag_type uid MIFARE_CLASSIC, st2)))
         else Inr (NfcTag_uid uid, st))"

text \<open>
  The body of the loop of \<open>read_mifare_classic_tag_\<close> (pn532_mifare_classic.cpp,
  lines 34-44).
\<close>

definition read_mifare_classic_tag_block ::
  "'s transport \<Rightarrow> byte list \<Rightarrow> byte \<Rightarrow> byte list \<Rightarrow> 's \<Rightarrow> fault + (byte list \<times> 's)" where
  "read_mifare_classic_tag_block tr uid current_block buffer st =
     (case (if mifare_classic_is_first_block current_block
            then (case auth_mifare_classic_block_' tr uid current_block MIFARE_CMD_AUTH_A NDEF_KEY st of
                    Inl f \<Rightarrow> Inl f
                  | Inr (ok, st1) \<Rightarrow> Inr st1)
            else Inr st) of
        Inl f \<Rightarrow> Inl f
      | Inr st1 \<Rightarrow>
          (case read_mifare_classic_block_' tr current_block [] st1 of
             Inl f \<Rightarrow> Inl f
           | Inr (True, block_data, st2) \<Rightarrow> Inr (buffer @ block_data, st2)
           | Inr (False, block_data, st2) \<Rightarrow> Inr (buffer, st2)))"

text \<open>
  \<open>PN532::read_mifare_classic_tag_\<close> (pn532_mifare_classic.cpp, lines 9-55). The test
  of line 16 is \<open>if (!read_mifare_classic_block_(current_block, data))\<close>: the TLV is
  decoded in the branch where the read returned \<open>false\<close>, and the branch where it
  returned \<open>true\<close> returns the tag without payload.
\<close>

definition read_mifare_classic_tag_' ::
  "nfc_helpers \<Rightarrow> 's transport \<Rightarrow> byte list \<Rightarrow> 's \<Rightarrow> fault + (NfcTag \<times> 's)" where
  "read_mifare_classic_tag_' nfc tr uid st =
     (case auth_mifare_classic_block_' tr uid 4 MIFARE_CMD_AUTH_A NDEF_KEY st of
        Inl f \<Rightarrow> Inl f
      | Inr (False, st1) \<Rightarrow> Inr (NfcTag_type uid MIFARE_CLASSIC, st1)
      | Inr (True, st1) \<Rightarrow>
          (case read_mifare_classic_block_' tr 4 [] st1 of
             Inl f \<Rightarrow> Inl f
           | Inr (True, data, st2) \<Rightarrow> Inr (NfcTag_type uid MIFARE_CLASSIC, st2)
           | Inr (False, data, st2) \<Rightarrow>
               (case decode_mifare_classic_tlv nfc data of
                  None \<Rightarrow> Inr (NfcTag_type uid ERROR, st2)
                | Some (message_length, message_start_index) \<Rightarrow>
                    (case read_blocks (read_mifare_classic_tag_block tr uid) 0
                            (get_mifare_classic_buffer_size message_length) 4 [] st2 of
                       Inl f \<Rightarrow> Inl f
                     | Inr (buffer, st3) \<Rightarrow>
                         if length buffer < unat message_start_index then Inl OutOfRange
                         else Inr (NfcTag_data uid MIFARE_CLASSIC
                                     (drop (unat message_start_index) buffer), st3)))))"

subsection \<open>Writing\<close>

text \<open>
  \<open>std::vector::insert(begin() + pos, v)\<close> and \<open>resize(n, v)\<close>. Every insert below
  is at a position inside the vector.
\<close>

definition vec_insert :: "'a list \<Rightarrow> nat \<Rightarrow> 'a \<Rightarrow> 'a list" where
  "vec_insert xs pos v = take pos xs @ v # drop pos xs"

definition vec_resize :: "'a list \<Rightarrow> nat \<Rightarrow> 'a \<Rightarrow> 'a list" where
  "vec_resize xs n v = take n xs @ replicate (n - length xs) v"

text \<open>
  The buffer \<open>write_tag_\<close> sends to the blocks (pn532.cpp, lines 453-465). The message
  is passed as its encoding, the result of \<open>message->encode()\<close>. The arguments of
  \<open>insert\<close> read \<open>encoded.size()\<close> after the inserts before them.
\<close>

definition write_tag_buffer :: "byte list \<Rightarrow> byte list" where
  "write_tag_buffer encoded =
     (if length encoded < 255 then
        (let encoded = vec_insert encoded 0 0x03;
             encoded = vec_insert encoded 1 (of_nat (length encoded))
         in encoded @ [0xFE])
      else
        (let encoded = vec_insert encoded 0 0x03;
             encoded = vec_insert encoded 1 0xFF;
             encoded = vec_insert encoded 2 (of_nat (drop_bit 8 (length encoded) AND 0xFF));
             encoded = vec_insert encoded 2 (of_nat (length encoded AND 0xFF))
         in encoded @ [0xFE]))"

text \<open>
  The buffer \<open>write_mifare_classic_tag_\<close> sends to the blocks
  (pn532_mifare_classic.cpp, lines 214-229).
\<close>

definition write_mifare_classic_tag_buffer :: "byte list \<Rightarrow> byte list" where
  "write_mifare_classic_tag_buffer encoded =
     (let message_length = length encoded;
          buffer_length = get_mifare_classic_buffer_size message_length;
          encoded = vec_insert encoded 0 0x03;
          encoded =
            (if message_length < 255 then vec_insert encoded 1 (of_nat message_length)
             else
               (let encoded = vec_insert encoded 1 0xFF;
                    encoded = vec_insert encoded 2 (of_nat (drop_bit 8 message_length AND 0xFF))
                in vec_insert encoded 3 (of_nat (message_length AND 0xFF))));
          encoded = encoded @ [0xFE]
      in vec_resize encoded buffer_length 0)"

text \<open>
  The block loop shared by \<open>write_tag_\<close> (pn532.cpp, lines 470-489, with the bound
  \<open>encoded.size()\<close>) and \<open>write_mifare_classic_tag_\<close> (pn532_mifare_classic.cpp,
  lines 234-252, with the bound \<open>buffer_length\<close>):
  \<open>while (index < bound) { body, which may return false; index += 16; advance
  current_block }\<close>. The body is the parameter \<open>body\<close>; when it yields \<open>False\<close>
  the function returns \<open>false\<close> at once.
\<close>

function write_blocks ::
  "(nat \<Rightarrow> byte \<Rightarrow> 's \<Rightarrow> fault + (bool \<times> 's)) \<Rightarrow> nat \<Rightarrow> nat \<Rightarrow> byte \<Rightarrow> 's \<Rightarrow> fault + (bool \<times> 's)" where
  "write_blocks body bound index current_block st =
     (if index < bound then
        (case body index current_block st of
           Inl f \<Rightarrow> Inl f
         | Inr (False, st') \<Rightarrow> Inr (False, st')
         | Inr (True, st') \<Rightarrow>
             if 2 ^ 32 \<le> index + BLOCK_SIZE then Inl IndexWrap
             else write_blocks body bound (index + BLOCK_SIZE)
                    (block_address_advance current_block) st')
      else Inr (True, st))"
  by pat_completeness auto
termination
  by (relation "measure (\<lambda>(body, bound, index, current_block, st). bound - index)")
     (auto simp: BLOCK_SIZE_def)

declare write_blocks.simps [simp del]

text \<open>
  The body of the write loops (pn532.cpp, lines 471-481; pn532_mifare_classic.cpp,
  lines 235-244): authenticate at the first block of a sector, then write the 16 bytes
  of \<open>encoded\<close> from \<open>index\<close>, which must lie inside the vector.
\<close>

definition write_tag_block ::
  "'s transport \<Rightarrow> byte list \<Rightarrow> byte list \<Rightarrow> nat \<Rightarrow> byte \<Rightarrow> 's \<Rightarrow> fault + (bool \<times> 's)" where
  "write_tag_block tr uid encoded index current_block st =
     (case (if mifare_classic_is_first_block current_block
            then auth_mifare_classic_block_' tr uid current_block MIFARE_CMD_AUTH_A NDEF_KEY st
            else Inr (True, st)) of
        Inl f \<Rightarrow> Inl f
      | Inr (False, st1) \<Rightarrow> Inr (False, st1)
      | Inr (True, st1) \<Rightarrow>
          if length encoded < index + BLOCK_SIZE then Inl OutOfRange
          else Inr (write_mifare_classic_block_' tr current_block
                      (take BLOCK_SIZE (drop index encoded)) st1))"

definition write_tag_' :: "'s transport \<Rightarrow> byte list \<Rightarrow> byte list \<Rightarrow> 's \<Rightarrow> fault + (bool \<times> 's)" where
  "write_tag_' tr uid message_encoded st =
     (let encoded = write_tag_buffer message_encoded
      in write_blocks (write_tag_block tr uid encoded) (length encoded) 0 4 st)"

definition write_mifare_classic_tag_' ::
  "'s transport \<Rightarrow> byte list \<Rightarrow> byte list \<Rightarrow> 's \<Rightarrow> fault + (bool \<times> 's)" where
  "write_mifare_classic_tag_' tr uid message_encoded st =
     (let encoded = write_mifare_classic_tag_buffer message_encoded
      in write_blocks (write_tag_block tr uid encoded)
           (get_mifare_classic_buffer_size (length message_encoded)) 0 4 st)"

subsection \<open>Formatting, cleaning and erasing\<close>

text \<open>A \<open>for\<close> loop over a list of indices, threading a state and stopping at a fault.\<close>

fun for_each :: "('a \<Rightarrow> 'b \<Rightarrow> fault + 'b) \<Rightarrow> 'a list \<Rightarrow> 'b \<Rightarrow> fault + 'b" where
  "for_each body [] s = Inr s"
| "for_each body (x # xs) s =
     (case body x s of Inl f \<Rightarrow> Inl f | Inr s' \<Rightarrow> for_each body xs s')"

text \<open>
  One iteration of the loop of \<open>PN532::format_mifare_classic_mifare_\<close>
  (pn532_mifare_classic.cpp, lines 108-139); the state is \<open>error\<close> and the transport.
\<close>

definition format_mifare_sector ::
  "'s transport \<Rightarrow> byte list \<Rightarrow> nat \<Rightarrow> bool \<times> 's \<Rightarrow> fault + (bool \<times> 's)" where
  "format_mifare_sector tr uid idx s =
     (case s of (error, st) \<Rightarrow>
       (let blank_buffer = replicate 16 (0x00 :: byte);
            trailer_buffer = [0xFF, 0xFF, 0xFF, 0xFF, 0xFF, 0xFF, 0xFF, 0x07, 0x80, 0x69,
                              0xFF, 0xFF, 0xFF, 0xFF, 0xFF, 0xFF :: byte]
        in case auth_mifare_classic_block_' tr uid (of_nat (4 * idx + 3)) MIFARE_CMD_AUTH_B
                  DEFAULT_KEY st of
             Inl f \<Rightarrow> Inl f
           | Inr (False, st1) \<Rightarrow> Inr (error, st1)
           | Inr (True, st1) \<Rightarrow>
               let (error, st2) =
                     (if idx = 0 then
                        (case write_mifare_classic_block_' tr (of_nat (4 * idx + 1)) blank_buffer st1 of
                           (ok, st') \<Rightarrow> (if \<not> ok then True else error, st'))
                      else
                        (case write_mifare_classic_block_' tr (of_nat (4 * idx)) blank_buffer st1 of
                           (ok, st') \<Rightarrow>
                             let error = (if \<not> ok then True else error)
                             in case write_mifare_classic_block_' tr (of_nat (4 * idx + 1))
                                       blank_buffer st' of
                                  (ok, st'') \<Rightarrow> (if \<not> ok then True else error, st'')));
                   (error, st3) =
                     (case write_mifare_classic_block_' tr (of_nat (4 * idx + 2)) blank_buffer st2 of
                        (ok, st') \<Rightarrow> (if \<not> ok then True else error, st'));
                   (error, st4) =
                     (case write_mifare_classic_block_' tr (of_nat (4 * idx + 3)) trailer_buffer st3 of
                        (ok, st') \<Rightarrow> (if \<not> ok then True else error, st'))
               in Inr (error, st4)))"

text \<open>\<open>PN532::format_mifare_classic_mifare_\<close> (pn532_mifare_classic.cpp, lines 100-142).\<close>

definition format_mifare_classic_mifare_' ::
  "'s transport \<Rightarrow> byte list \<Rightarrow> 's \<Rightarrow> fault + (bool \<times> 's)" where
  "format_mifare_classic_mifare_' tr uid st =
     (case for_each (format_mifare_sector tr uid) [0 ..< 16] (False, st) of
        Inl f \<Rightarrow> Inl f
      | Inr (error, st') \<Rightarrow> Inr (\<not> error, st'))"

text \<open>
  One iteration of the loop of \<open>PN532::format_mifare_classic_ndef_\<close>
  (pn532_mifare_classic.cpp, lines 169-187). The results of the writes are logged only.
\<close>

definition format_ndef_sector :: "'s transport \<Rightarrow> byte list \<Rightarrow> nat \<Rightarrow> 's \<Rightarrow> fault + 's" where
  "format_ndef_sector tr uid i st =
     (let empty_ndef_message = [0x03, 0x03, 0xD0, 0x00, 0x00, 0xFE, 0x00, 0x00, 0x00, 0x00,
                                0x00, 0x00, 0x00, 0x00, 0x00, 0x00 :: byte];
          sector_buffer_0 = replicate 16 (0x00 :: byte);
          sector_buffer_4 = [0xD3, 0xF7, 0xD3, 0xF7, 0xD3, 0xF7, 0x7F, 0x07, 0x88, 0x40,
                             0xFF, 0xFF, 0xFF, 0xFF, 0xFF, 0xFF :: byte]
      in case auth_mifare_classic_block_' tr uid (of_nat i) MIFARE_CMD_AUTH_B DEFAULT_KEY st of
           Inl f \<Rightarrow> Inl f
         | Inr (False, st1) \<Rightarrow> Inr st1
         | Inr (True, st1) \<Rightarrow>
             let st2 = snd (write_mifare_classic_block_' tr (of_nat i)
                              (if i = 4 then empty_ndef_message else sector_buffer_0) st1);
                 st3 = snd (write_mifare_classic_block_' tr (of_nat (i + 1)) sector_buffer_0 st2);
                 st4 = snd (write_mifare_classic_block_' tr (of_nat (i + 2)) sector_buffer_0 st3);
                 st5 = snd (write_mifare_classic_block_' tr (of_nat (i + 3)) sector_buffer_4 st4)
             in Inr st5)"

text \<open>\<open>PN532::format_mifare_classic_ndef_\<close> (pn532_mifare_classic.cpp, lines 144-189).\<close>

definition format_mifare_classic_ndef_' ::
  "'s transport \<Rightarrow> byte list \<Rightarrow> 's \<Rightarrow> fault + (bool \<times> 's)" where
  "format_mifare_classic_ndef_' tr uid st =
     (let sector_buffer_1 = [0x14, 0x01, 0x03, 0xE1, 0x03, 0xE1, 0x03, 0xE1, 0x03, 0xE1,
                             0x03, 0xE1, 0x03, 0xE1, 0x03, 0xE1 :: byte];
          sector_buffer_2 = [0x03, 0xE1, 0x03, 0xE1, 0x03, 0xE1, 0x03, 0xE1, 0x03, 0xE1,
                             0x03, 0xE1, 0x03, 0xE1, 0x03, 0xE1 :: byte];
          sector_buffer_3 = [0xA0, 0xA1, 0xA2, 0xA3, 0xA4, 0xA5, 0x78, 0x77, 0x88, 0xC1,
                             0xFF, 0xFF, 0xFF, 0xFF, 0xFF, 0xFF :: byte]
      in case auth_mifare_classic_block_' tr uid 0 MIFARE_CMD_AUTH_B DEFAULT_KEY st of
           Inl f \<Rightarrow> Inl f
         | Inr (False, st1) \<Rightarrow> Inr (False, st1)
         | Inr (True, st1) \<Rightarrow>
             (case write_mifare_classic_block_' tr 1 sector_buffer_1 st1 of
                (False, st2) \<Rightarrow> Inr (False, st2)
              | (True, st2) \<Rightarrow>
                  (case write_mifare_classic_block_' tr 2 sector_buffer_2 st2 of
                     (False, st3) \<Rightarrow> Inr (False, st3)
                   | (True, st3) \<Rightarrow>
                       (case write_mifare_classic_block_' tr 3 sector_buffer_3 st3 of
                          (False, st4) \<Rightarrow> Inr (False, st4)
                        | (True, st4) \<Rightarrow>
                            (case for_each (format_ndef_sector tr uid)
                                    (map (\<lambda>k. 4 * k) [1 ..< 16]) st4 of
                               Inl f \<Rightarrow> Inl f
                             | Inr st5 \<Rightarrow> Inr (True, st5))))))"

text \<open>
  \<open>PN532::clean_tag_\<close>, \<open>PN532::format_tag_\<close> and \<open>PN532::erase_tag_\<close>
  (pn532.cpp, lines 428-450).
\<close>

definition clean_tag_' ::
  "nfc_helpers \<Rightarrow> 's transport \<Rightarrow> byte list \<Rightarrow> 's \<Rightarrow> fault + (bool \<times> 's)" where
  "clean_tag_' nfc tr uid st =
     (if guess_tag_type nfc (length uid) = TAG_TYPE_MIFARE_CLASSIC
      then format_mifare_classic_mifare_' tr uid st
      else Inr (False, st))"

definition format_tag_' ::
  "nfc_helpers \<Rightarrow> 's transport \<Rightarrow> byte list \<Rightarrow> 's \<Rightarrow> fault + (bool \<times> 's)" where
  "format_tag_' nfc tr uid st =
     (if guess_tag_type nfc (length uid) = TAG_TYPE_MIFARE_CLASSIC
      then format_mifare_classic_ndef_' tr uid st
      else Inr (False, st))"

definition erase_tag_' ::
  "nfc_helpers \<Rightarrow> 's transport \<Rightarrow> byte list \<Rightarrow> 's \<Rightarrow> fault + (bool \<times> 's)" where
  "erase_tag_' nfc tr uid st = write_tag_' tr uid (empty_record_encoded nfc) st"

section \<open>Detection loop\<close>

text \<open>
  \<open>PN532BinarySensor\<close> with the fields \<open>uid_\<close> and \<open>found_\<close>, and the state it
  last published.
\<close>

record PN532BinarySensor =
  uid_' :: "byte list"
  found_' :: bool
  published :: "bool option"

text \<open>\<open>PN532BinarySensor::process\<close> (pn532.cpp, lines 515-527).\<close>

definition process :: "PN532BinarySensor \<Rightarrow> byte list \<Rightarrow> bool \<times> PN532BinarySensor" where
  "process this data =
     (if length data \<noteq> length (uid_' this) then (False, this)
      else if list_ex (\<lambda>i. data ! i \<noteq> uid_' this ! i) [0 ..< length data] then (False, this)
      else (True, this\<lparr>published := Some True, found_' := True\<rparr>))"

datatype task = READ | CLEAN | FORMAT | ERASE | WRITE

text \<open>
  The fields of \<open>PN532\<close> that \<open>update\<close> and \<open>loop\<close> use. The message to write is
  kept as its encoding (\<open>None\<close> for \<open>nullptr\<close>); the registered triggers are counted
  and each call of \<open>trigger->process(tag)\<close> is recorded in \<open>triggered\<close>.
\<close>

record PN532 =
  requested_read_' :: bool
  current_uid_' :: "byte list"
  next_task_' :: task
  next_task_continuous_' :: bool
  next_task_message_to_write_' :: "byte list option"
  binary_sensors_' :: "PN532BinarySensor list"
  triggers_' :: nat
  triggered :: "NfcTag list"

text \<open>\<open>PN532::turn_off_rf_\<close> (pn532.cpp, lines 337-344): the result is dropped.\<close>

definition turn_off_rf_' :: "'s transport \<Rightarrow> 's \<Rightarrow> 's" where
  "turn_off_rf_' tr st = snd (write_command_' tr [PN532_COMMAND_RFCONFIGURATION, 0x01, 0x00] st)"

text \<open>
  The second half of \<open>PN532::loop\<close> (pn532.cpp, lines 145-197): the task is run on
  the tag that \<open>read_tag_\<close> returned.
\<close>

definition run_task ::
  "nfc_helpers \<Rightarrow> 's transport \<Rightarrow> byte list \<Rightarrow> NfcTag \<Rightarrow> PN532 \<Rightarrow> 's \<Rightarrow> fault + (PN532 \<times> 's)" where
  "run_task nfc tr nfcid tag this st =
     (let finish = (\<lambda>this st.
            let this = (if \<not> next_task_continuous_' this then this\<lparr>next_task_' := READ\<rparr> else this)
            in Inr (this, turn_off_rf_' tr st))
      in case next_task_' this of
           READ \<Rightarrow>
             finish (this\<lparr>triggered := triggered this @ replicate (triggers_' this) tag\<rparr>) st
         | CLEAN \<Rightarrow>
             (case clean_tag_' nfc tr nfcid st of
                Inl f \<Rightarrow> Inl f | Inr (ok, st1) \<Rightarrow> finish this st1)
         | FORMAT \<Rightarrow>
             (case format_tag_' nfc tr nfcid st of
                Inl f \<Rightarrow> Inl f | Inr (ok, st1) \<Rightarrow> finish this st1)
         | ERASE \<Rightarrow>
             (case erase_tag_' nfc tr nfcid st of
                Inl f \<Rightarrow> Inl f | Inr (ok, st1) \<Rightarrow> finish this st1)
         | WRITE \<Rightarrow>
             (case next_task_message_to_write_' this of
                None \<Rightarrow> finish this st
              | Some message \<Rightarrow>
                  (case (if has_ndef_message nfc tag then Inr (True, st)
                         else format_tag_' nfc tr nfcid st) of
                     Inl f \<Rightarrow> Inl f
                   | Inr (False, st1) \<Rightarrow> Inr (this, turn_off_rf_' tr st1)
                   | Inr (True, st1) \<Rightarrow>
                       (case write_tag_' tr nfcid message st1 of
                          Inl f \<Rightarrow> Inl f | Inr (ok, st2) \<Rightarrow> finish this st2))))"

text \<open>
  \<open>PN532::loop\<close> (pn532.cpp, lines 95-198). The vector \<open>nfcid\<close> is built from
  \<open>read[6 .. 6 + nfcid_length)\<close> on line 120, before the size of \<open>read\<close> is tested
  on line 121. The loop of lines 135-136 starts from \<open>same_uid = false\<close> and
  accumulates with \<open>|=\<close>.
\<close>

definition loop :: "nfc_helpers \<Rightarrow> 's transport \<Rightarrow> PN532 \<Rightarrow> 's \<Rightarrow> fault + (PN532 \<times> 's)" where
  "loop nfc tr this st =
     (if \<not> requested_read_' this then Inr (this, st)
      else
        (case read_response_' tr PN532_COMMAND_INLISTPASSIVETARGET [] st of
          (success, read, st1) \<Rightarrow>
           (let this = this\<lparr>requested_read_' := False\<rparr>
            in if \<not> success then Inr (this\<lparr>current_uid_' := []\<rparr>, turn_off_rf_' tr st1)
               else if read = [] then Inl OutOfRange
               else
                 let num_targets = read ! 0
                 in if num_targets \<noteq> 1 then Inr (this\<lparr>current_uid_' := []\<rparr>, turn_off_rf_' tr st1)
                    else if length read \<le> 5 then Inl OutOfRange
                    else
                      let nfcid_length = read ! 5
                      in if length read < 6 + unat nfcid_length then Inl OutOfRange
                         else
                           let nfcid = take (unat nfcid_length) (drop 6 read)
                           in if length read < 6 + unat nfcid_length then Inr (this, st1)
                              else
                                let results = map (\<lambda>bin_sens. process bin_sens nfcid)
                                                (binary_sensors_' this);
                                    report = \<not> list_ex fst results;
                                    this = this\<lparr>binary_sensors_' := map snd results\<rparr>;
                                    same_uid =
                                      (length nfcid = length (current_uid_' this) \<and>
                                       foldl (\<lambda>same_uid i. same_uid \<or> nfcid ! i = current_uid_' this ! i)
                                         False [0 ..< length nfcid])
                                in if same_uid then Inr (this, st1)
                                   else
                                     let this = this\<lparr>current_uid_' := nfcid\<rparr>
                                     in case read_tag_' nfc tr nfcid st1 of
                                          Inl f \<Rightarrow> Inl f
                                        | Inr (tag, st2) \<Rightarrow> run_task nfc tr nfcid tag this st2)))"

text \<open>
  \<open>PN532::update\<close> (pn532.cpp, lines 78-93), without the sensors' \<open>on_scan_end\<close> and
  the warning flag, which belong to classes that are not among the sources.
\<close>

definition update :: "'s transport \<Rightarrow> PN532 \<Rightarrow> 's \<Rightarrow> PN532 \<times> 's" where
  "update tr this st =
     (case write_command_' tr [PN532_COMMAND_INLISTPASSIVETARGET, 0x01, 0x00] st of
        (False, st1) \<Rightarrow> (this, st1)
      | (True, st1) \<Rightarrow> (this\<lparr>requested_read_' := True\<rparr>, st1))"

section \<open>A scripted device\<close>

text \<open>
  A transport for evaluating the driver on concrete exchanges: its state is the list of
  answers the device will give to the next reads (\<open>None\<close> for a timeout; a read
  beyond the script times out) and the list of the frames written so far.
\<close>

type_synonym device = "byte list option list \<times> byte list list"

definition scripted :: "device transport" where
  "scripted =
     \<lparr> transport_read = (\<lambda>n st. case st of
                             ([], sent) \<Rightarrow> (None, ([], sent))
                           | (r # rs, sent) \<Rightarrow> (r, (rs, sent))),
       transport_write = (\<lambda>bs st. case st of (rs, sent) \<Rightarrow> (rs, sent @ [bs])) \<rparr>"

text \<open>
  The frame of a response, following the spec's data model of a frame: preamble,
  start code 0x00 0xFF, length, length checksum, direction byte 0xD5 (device to host),
  the data (command echo, then payload), data checksum, postamble.
\<close>

definition response_frame :: "byte list \<Rightarrow> byte list" where
  "response_frame data =
     [0x00, 0x00, 0xFF, of_nat (length data + 1), - of_nat (length data + 1), 0xD5] @ data @
     [- (0xD5 + sum_list data), 0x00]"

text \<open>
  What the transport hands to the driver for the response to \<open>command\<close> with the
  given payload: the leading status byte of the bus, then the response frame, whose
  data starts with the command echo \<open>command + 1\<close>.
\<close>

definition delivered :: "byte \<Rightarrow> byte \<Rightarrow> byte list \<Rightarrow> byte list" where
  "delivered lead command payload = lead # response_frame ((command + 1) # payload)"

text \<open>
  The answers of the scripted device: the acknowledgement frame behind the leading
  status byte, and the response to a command.
\<close>

definition ack_answer :: "byte list option" where
  "ack_answer = Some [0x01, 0x00, 0x00, 0xFF, 0x00, 0xFF, 0x00]"

definition answer :: "byte \<Rightarrow> byte list \<Rightarrow> byte list option" where
  "answer command payload = Some (delivered 0x01 command payload)"

text \<open>
  Modelled from the spec: an instance of the \<open>nfc\<close> helpers for evaluating the driver
  on concrete exchanges. The TLV locator follows the spec's TLV envelope at the start
  of the block: type 0x03, then a length of 1 byte, or 0xFF and a 2-byte big-endian
  length; the payload starts after the header. UIDs of 4 bytes (as in the spec's
  scenarios) are classified as MIFARE Classic. The message with one empty record is
  encoded as in the block that \<open>format_mifare_classic_ndef_\<close> writes (0xD0 0x00 0x00).
\<close>

definition spec_decode_tlv :: "byte list \<Rightarrow> (nat \<times> byte) option" where
  "spec_decode_tlv data =
     (if length data < 2 \<or> data ! 0 \<noteq> 0x03 then None
      else if data ! 1 = 0xFF then
        (if length data < 4 then None else Some (unat (data ! 2) * 256 + unat (data ! 3), 4))
      else Some (unat (data ! 1), 2))"

definition spec_nfc :: nfc_helpers where
  "spec_nfc =
     \<lparr> guess_tag_type = (\<lambda>uid_length. if uid_length = 4 then TAG_TYPE_MIFARE_CLASSIC else TAG_TYPE_2),
       decode_mifare_classic_tlv = spec_decode_tlv,
       has_ndef_message = (\<lambda>tag. case tag of NfcTag_data uid t data \<Rightarrow> data \<noteq> [] | _ \<Rightarrow> False),
       empty_record_encoded = [0xD0, 0x00, 0x00] \<rparr>"

text \<open>The tag of a result, without the state of the transport.\<close>

definition result_of :: "fault + ('a \<times> 's) \<Rightarrow> fault + 'a" where
  "result_of r = (case r of Inl f \<Rightarrow> Inl f | Inr (x, st) \<Rightarrow> Inr x)"

text \<open>
  Scripts and states for the evaluations below: a driver that has requested a read
  and remembers \<open>uid\<close> as the last UID; the three answers of a successful
  authentication, of a successful block read and of a successful block write; the
  block 4 of a tag formatted with the empty NDEF message, and the block 4 of a tag
  whose NDEF message has 20 bytes.
\<close>

definition awaiting :: "byte list \<Rightarrow> PN532" where
  "awaiting uid = \<lparr> requested_read_' = True, current_uid_' = uid, next_task_' = READ,
       next_task_continuous_' = False, next_task_message_to_write_' = None,
       binary_sensors_' = [], triggers_' = 1, triggered = [] \<rparr>"

definition auth_ok :: "byte list option list" where
  "auth_ok = [ack_answer, answer 0x40 [0x00], answer 0x40 [0x00]]"

definition read_ok :: "byte list \<Rightarrow> byte list option list" where
  "read_ok block = [ack_answer, answer 0x40 (0x00 # block), answer 0x40 (0x00 # block)]"

definition write_ok :: "byte list option list" where
  "write_ok = [ack_answer, answer 0x40 [0x00], answer 0x40 [0x00]]"

definition ndef_block :: "byte list" where
  "ndef_block = [0x03, 0x03, 0xD0, 0x00, 0x00, 0xFE, 0x00, 0x00, 0x00, 0x00, 0x00, 0x00,
                 0x00, 0x00, 0x00, 0x00]"

definition long_block :: "byte list" where
  "long_block = [0x03, 0x14, 0xD1, 0x01, 0x10, 0x54, 0x02, 0x65, 0x6E, 0x68, 0x65, 0x6C,
                 0x6C, 0x6F, 0x20, 0x77]"

text \<open>
  The blocks that \<open>n\<close> iterations of a block loop visit from \<open>current_block\<close> on.
\<close>

fun block_seq :: "nat \<Rightarrow> byte \<Rightarrow> byte list" where
  "block_seq 0 current_block = []"
| "block_seq (Suc n) current_block = current_block # block_seq n (block_address_advance current_block)"

section \<open>Properties of the frame builder\<close>

lemma command_frame_loop:
  "foldl (\<lambda>(w, c) dat. (w @ [dat], c + dat)) (w0, c0 :: byte) data =
     (w0 @ data, c0 + sum_list data)"
  by (induction data arbitrary: w0 c0) (simp_all add: add.assoc)

lemma command_frame_eq:
  "command_frame data =
     [0x00, 0x00, 0xFF, of_nat (length data + 1), - of_nat (length data + 1), 0xD4] @ data @
     [- (0xD4 + sum_list data), 0x00]"
  by (simp add: command_frame_def Let_def command_frame_loop minus_eq_not_plus_1 del: of_nat_Suc of_nat_add)

lemma unat_byte_add: "unat ((a :: byte) + b) = (unat a + unat b) mod 256"
  by (simp add: unat_word_ariths)

lemma unat_sum_list_byte: "unat (sum_list (xs :: byte list)) = sum_list (map unat xs) mod 256"
  by (induction xs) (simp_all add: unat_byte_add mod_simps)

lemma byte_pair_sum_zero: "(a :: byte) + b = 0 \<Longrightarrow> (unat a + unat b) mod 256 = 0"
  using unat_byte_add [of a b] by simp

lemma byte_list_sum_zero:
  assumes "(a :: byte) + sum_list xs + c = 0"
  shows "(unat a + sum_list (map unat xs) + unat c) mod 256 = 0"
proof -
  have "unat (a + sum_list xs + c) = (unat a + sum_list (map unat xs) + unat c) mod 256"
    by (simp add: unat_byte_add unat_sum_list_byte mod_simps)
  with assms show ?thesis by simp
qed

text \<open>
  Claim C6 (as amended). For every command payload \<open>data\<close>, the frame built by
  \<open>write_command_\<close> starts with preamble 0x00 and start code 0x00 0xFF, carries the
  direction byte 0xD4, then the payload, then the payload checksum, and ends with the
  postamble 0x00; the length field plus the length checksum is 0 modulo 256; the
  direction byte plus all payload bytes plus the payload checksum is 0 modulo 256. The
  length field is one byte: it is the payload length plus 1 modulo 256, hence equal to
  the payload length plus 1 exactly when the payload has at most 254 bytes.
\<close>

theorem command_frame_invariants:
  "take 3 (command_frame data) = [0x00, 0x00, 0xFF]
   \<and> unat (command_frame data ! 3) = (length data + 1) mod 256
   \<and> (length data \<le> 254 \<longrightarrow> unat (command_frame data ! 3) = length data + 1)
   \<and> (unat (command_frame data ! 3) + unat (command_frame data ! 4)) mod 256 = 0
   \<and> command_frame data ! 5 = 0xD4
   \<and> take (length data) (drop 6 (command_frame data)) = data
   \<and> (unat (command_frame data ! 5) + sum_list (map unat data)
         + unat (command_frame data ! (6 + length data))) mod 256 = 0
   \<and> command_frame data ! (7 + length data) = 0x00
   \<and> length (command_frame data) = length data + 8"
proof -
  let ?n = "of_nat (length data + 1) :: byte"
  have f3: "command_frame data ! 3 = ?n" and f4: "command_frame data ! 4 = - ?n"
    and f5: "command_frame data ! 5 = 0xD4"
    by (simp_all add: command_frame_eq del: of_nat_Suc of_nat_add)
  have dcs: "command_frame data ! (6 + length data) = - (0xD4 + sum_list data)"
    by (simp add: command_frame_eq nth_append)
  have 1: "take 3 (command_frame data) = [0x00, 0x00, 0xFF]"
    by (simp add: command_frame_eq)
  have 2: "unat (command_frame data ! 3) = (length data + 1) mod 256"
    unfolding f3 by (simp add: unat_of_nat del: of_nat_Suc of_nat_add)
  have 3: "length data \<le> 254 \<longrightarrow> unat (command_frame data ! 3) = length data + 1"
    unfolding 2 by simp
  have 4: "(unat (command_frame data ! 3) + unat (command_frame data ! 4)) mod 256 = 0"
    unfolding f3 f4 by (rule byte_pair_sum_zero) simp
  have 5: "take (length data) (drop 6 (command_frame data)) = data"
    by (simp add: command_frame_eq)
  have 6: "(unat (command_frame data ! 5) + sum_list (map unat data)
           + unat (command_frame data ! (6 + length data))) mod 256 = 0"
    unfolding f5 dcs by (rule byte_list_sum_zero) simp
  have 7: "command_frame data ! (7 + length data) = 0x00"
    by (simp add: command_frame_eq nth_append)
  have 8: "length (command_frame data) = length data + 8"
    by (simp add: command_frame_eq)
  from 1 2 3 4 f5 5 6 7 8 show ?thesis by blast
qed

text \<open>
  Witness for C6: the frame of the command "list one passive target" sent by
  \<open>update\<close>, with payload 0x4A 0x01 0x00 (3 bytes, length field 4).
\<close>

theorem command_frame_invariants_witness:
  "length [0x4A, 0x01, 0x00 :: byte] \<le> 254
   \<and> command_frame [0x4A, 0x01, 0x00] =
       [0x00, 0x00, 0xFF, 0x04, 0xFC, 0xD4, 0x4A, 0x01, 0x00, 0xE1, 0x00]
   \<and> unat (command_frame [0x4A, 0x01, 0x00] ! 3) = 4
   \<and> (unat (command_frame [0x4A, 0x01, 0x00] ! 3)
        + unat (command_frame [0x4A, 0x01, 0x00] ! 4)) mod 256 = 0
   \<and> (unat (command_frame [0x4A, 0x01, 0x00] ! 5) + sum_list (map unat [0x4A, 0x01, 0x00 :: byte])
        + unat (command_frame [0x4A, 0x01, 0x00] ! (6 + length [0x4A, 0x01, 0x00 :: byte])))
       mod 256 = 0"
  using command_frame_invariants [of "[0x4A, 0x01, 0x00]"]
  by (simp add: command_frame_def)

text \<open>
  Counterexample to C6 as stated: for a payload of 255 bytes the length field is 0,
  not 256.
\<close>

theorem command_frame_length_field_counterexample:
  "unat (command_frame (replicate 255 0) ! 3) \<noteq> length (replicate 255 (0::byte)) + 1"
  by (simp add: command_frame_eq del: of_nat_Suc of_nat_add)

section \<open>Properties of the response parser\<close>

subsection \<open>The parser on the scripted device\<close>

lemma read_data_scripted_Some:
  "read_data scripted n (Some bs # rs, sent) =
     (if length bs < n + 1 then (None, (rs, sent)) else (Some (take (n + 1) bs), (rs, sent)))"
  by (simp add: read_data_def scripted_def)

lemma read_data_scripted_None:
  "read_data scripted n (None # rs, sent) = (None, (rs, sent))"
  by (simp add: read_data_def scripted_def)

lemma read_data_scripted_Nil:
  "read_data scripted n ([], sent) = (None, ([], sent))"
  by (simp add: read_data_def scripted_def)

lemma write_data_scripted:
  "write_data scripted bs (rs, sent) = (rs, sent @ [bs])"
  by (simp add: write_data_def scripted_def)

lemma foldl_byte_sum: "foldl (\<lambda>c dat. c + dat) (c0 :: byte) xs = c0 + sum_list xs"
  by (induction xs arbitrary: c0) (simp_all add: add.assoc)

lemma read_response_length_scripted:
  assumes "7 \<le> length bs"
  shows "read_response_length_' scripted (Some bs # rs, sent) =
     (if bs ! 1 \<noteq> 0x00 \<and> bs ! 2 \<noteq> 0x00 \<and> bs ! 3 \<noteq> 0xFF then (0, (rs, sent))
      else if \<not> (bs ! 4 + bs ! 5 = 0 \<and> bs ! 6 = 0xD5) then (0, (rs, sent))
      else (if bs ! 4 = 0 then 0 else bs ! 4 - 1,
            (rs, sent @ [[0x00, 0x00, 0xFF, 0xFF, 0x00, 0x00]])))"
  using assms
  by (simp add: read_response_length_'_def read_data_scripted_Some write_data_scripted Let_def)

lemma read_response_scripted_body:
  assumes "read_response_length_' scripted st = (len, (Some bs # rs, sent))"
    and "len \<noteq> 0" and "length bs = unat len + 9"
  shows "read_response_' scripted command data0 st =
     (if bs ! 1 \<noteq> 0x00 \<and> bs ! 2 \<noteq> 0x00 \<and> bs ! 3 \<noteq> 0xFF then (False, bs, (rs, sent))
      else if \<not> (bs ! 4 + bs ! 5 = 0 \<and> bs ! 6 = 0xD5 \<and> unat (bs ! 7) = unat command + 1)
      then (False, bs, (rs, sent))
      else if bs ! (unat len + 7) \<noteq> - sum_list (take (unat len + 1) (drop 6 bs))
      then (False, drop 6 bs, (rs, sent))
      else if bs ! (unat len + 8) \<noteq> 0x00 then (False, drop 6 bs, (rs, sent))
      else (True, take (unat len - 1) (drop 8 bs), (rs, sent)))"
  using assms
  by (simp add: read_response_'_def read_data_scripted_Some Let_def foldl_byte_sum
      minus_eq_not_plus_1 add.commute)

lemma delivered_eq:
  "delivered lead command payload =
     [lead, 0x00, 0x00, 0xFF, of_nat (length payload + 2), - of_nat (length payload + 2), 0xD5,
      command + 1] @ payload @ [- (0xD5 + (command + 1) + sum_list payload), 0x00]"
  by (simp add: delivered_def response_frame_def add.assoc del: of_nat_Suc of_nat_add)

lemma length_delivered: "length (delivered lead command payload) = length payload + 10"
  by (simp add: delivered_eq)

lemma unat_length_field:
  assumes "length payload \<le> 253"
  shows "unat (of_nat (length payload + 2) :: byte) = length payload + 2"
  using assms by (simp add: unat_of_nat del: of_nat_Suc of_nat_add)

lemma length_field_minus_one:
  assumes "length payload \<le> 253"
  shows "unat ((of_nat (length payload + 2) :: byte) - 1) = length payload + 1"
proof -
  have "(of_nat (length payload + 2) :: byte) - 1 = of_nat (length payload + 1)" by simp
  then show ?thesis using assms by (simp add: unat_of_nat del: of_nat_Suc of_nat_add)
qed

lemma probe_delivered:
  assumes "length payload \<le> 253" and "7 \<le> length G" and "take 7 G = take 7 (delivered lead command payload)"
  shows "read_response_length_' scripted (Some G # rs, sent) =
           (of_nat (length payload + 2) - 1, (rs, sent @ [[0x00, 0x00, 0xFF, 0xFF, 0x00, 0x00]]))"
proof -
  have nth: "\<And>k. k < 7 \<Longrightarrow> G ! k = delivered lead command payload ! k"
    using assms(3) by (metis nth_take)
  have "unat (of_nat (length payload + 2) :: byte) \<noteq> 0"
    using unat_length_field [OF assms(1)] by simp
  then have nz: "(of_nat (length payload + 2) :: byte) \<noteq> 0" by auto
  show ?thesis
    using nz by (simp add: read_response_length_scripted [OF assms(2)] nth delivered_eq del: of_nat_Suc of_nat_add)
qed

lemma delivered_head:
  "delivered lead command payload ! 1 = 0x00"
  "delivered lead command payload ! 2 = 0x00"
  "delivered lead command payload ! 3 = 0xFF"
  "delivered lead command payload ! 4 = of_nat (length payload + 2)"
  "delivered lead command payload ! 5 = - of_nat (length payload + 2)"
  "delivered lead command payload ! 6 = 0xD5"
  "delivered lead command payload ! 7 = command + 1"
  by (simp_all add: delivered_eq del: of_nat_Suc of_nat_add)

lemma delivered_tail:
  "delivered lead command payload ! (8 + length payload)
     = - (0xD5 + (command + 1) + sum_list payload)"
  "delivered lead command payload ! (9 + length payload) = 0x00"
  by (simp_all add: delivered_eq nth_append del: of_nat_Suc of_nat_add)

lemma delivered_data:
  "take (Suc (Suc (length payload))) (drop 6 (delivered lead command payload))
     = 0xD5 # (command + 1) # payload"
  "take (length payload) (drop 8 (delivered lead command payload)) = payload"
  by (simp_all add: delivered_eq del: of_nat_Suc of_nat_add)

lemma unat_echo:
  assumes "command \<noteq> (0xFF :: byte)"
  shows "unat (command + 1) = unat command + 1"
proof -
  have lt: "unat command < 256" using unsigned_less [of command, where ?'a = nat] by simp
  have "unat command \<noteq> 255"
  proof
    assume "unat command = 255"
    then have "of_nat (unat command) = (of_nat 255 :: byte)" by simp
    then have "command = 0xFF" by simp
    with assms show False by simp
  qed
  with lt have "unat command + 1 < 256" by simp
  then show ?thesis by (simp add: unat_byte_add)
qed

lemma read_response_round_trip_part:
  assumes len: "length payload \<le> 253" and cmd: "command \<noteq> 0xFF"
  shows "read_response_' scripted command data0
           (Some (delivered lead command payload) # Some (delivered lead command payload) # rs, sent)
         = (True, payload, (rs, sent @ [[0x00, 0x00, 0xFF, 0xFF, 0x00, 0x00]]))"
proof -
  let ?F = "delivered lead command payload"
  let ?len = "of_nat (length payload + 2) - 1 :: byte"
  have probe: "read_response_length_' scripted (Some ?F # Some ?F # rs, sent)
                 = (?len, (Some ?F # rs, sent @ [[0x00, 0x00, 0xFF, 0xFF, 0x00, 0x00]]))"
    by (rule probe_delivered [OF len]) (simp_all add: length_delivered)
  have ulen: "unat ?len = length payload + 1" by (rule length_field_minus_one [OF len])
  then have nz: "?len \<noteq> 0" by auto
  have size: "length ?F = unat ?len + 9" unfolding ulen length_delivered by simp
  show ?thesis
    unfolding read_response_scripted_body [OF probe nz size] ulen
    by (simp add: delivered_head delivered_tail delivered_data unat_echo [OF cmd]
        del: of_nat_Suc of_nat_add)
qed

lemma read_response_probe_zero:
  "read_response_length_' tr st = (0, st') \<Longrightarrow> read_response_' tr command data0 st = (False, data0, st')"
  by (simp add: read_response_'_def)

lemma read_response_mutated:
  assumes len: "length payload \<le> 253"
    and i: "i = 4 \<or> i = 5 \<or> i = length payload + 8 \<or> i = length payload + 9"
    and v: "v \<noteq> delivered lead command payload ! i"
    and G: "G = delivered lead command payload \<or> G = (delivered lead command payload)[i := v]"
  shows "fst (read_response_' scripted command data0
                (Some G # Some ((delivered lead command payload)[i := v]) # rs, sent)) = False"
proof -
  let ?F = "delivered lead command payload"
  let ?F' = "?F[i := v]"
  let ?L = "of_nat (length payload + 2) :: byte"
  let ?len = "?L - 1"
  let ?nack = "[0x00, 0x00, 0xFF, 0xFF, 0x00, 0x00] :: byte list"
  have ulen: "unat ?len = length payload + 1" by (rule length_field_minus_one [OF len])
  then have nz: "?len \<noteq> 0" by auto
  have size: "length ?F' = unat ?len + 9" unfolding ulen by (simp add: length_delivered)
  have lenG: "7 \<le> length G" using G by (auto simp: length_delivered)
  have body_fails: "fst (read_response_' scripted command data0 (Some G # Some ?F' # rs, sent)) = False"
    if probe: "read_response_length_' scripted (Some G # Some ?F' # rs, sent)
                 = (?len, (Some ?F' # rs, sent @ [?nack]))"
  proof -
    consider "i = 4" | "i = 5" | "i = length payload + 8" | "i = length payload + 9"
      using i by blast
    then show ?thesis
    proof cases
      case 1
      with v have "v + - ?L \<noteq> 0" by (simp add: delivered_head del: of_nat_Suc of_nat_add)
      then have "?F' ! 4 + ?F' ! 5 \<noteq> 0"
        using 1 by (simp add: length_delivered delivered_head del: of_nat_Suc of_nat_add)
      then show ?thesis
        unfolding read_response_scripted_body [OF probe nz size] by simp
    next
      case 2
      with v have "?L + v \<noteq> 0"
        by (simp add: delivered_head add_eq_0_iff del: of_nat_Suc of_nat_add)
      then have "?F' ! 4 + ?F' ! 5 \<noteq> 0"
        using 2 by (simp add: length_delivered delivered_head del: of_nat_Suc of_nat_add)
      then show ?thesis
        unfolding read_response_scripted_body [OF probe nz size] by simp
    next
      case 3
      have sum: "take (unat ?len + 1) (drop 6 ?F') = 0xD5 # (command + 1) # payload"
        unfolding ulen using 3 by (simp add: drop_update_swap delivered_data)
      have "?F' ! (unat ?len + 7) = v" unfolding ulen using 3 by (simp add: length_delivered add.commute)
      moreover have "v \<noteq> - sum_list (take (unat ?len + 1) (drop 6 ?F'))"
        unfolding sum using v 3 delivered_tail(1) [of lead command payload]
        by (simp add: add.commute add.assoc)
      ultimately have "?F' ! (unat ?len + 7) \<noteq> - sum_list (take (unat ?len + 1) (drop 6 ?F'))"
        by simp
      then show ?thesis
        unfolding read_response_scripted_body [OF probe nz size] by simp
    next
      case 4
      have "?F' ! (unat ?len + 8) = v" unfolding ulen using 4 by (simp add: length_delivered add.commute)
      moreover have "v \<noteq> 0" using v 4 delivered_tail(2) [of lead command payload]
        by (simp add: add.commute)
      ultimately have "?F' ! (unat ?len + 8) \<noteq> 0" by simp
      then show ?thesis
        unfolding read_response_scripted_body [OF probe nz size] by simp
    qed
  qed
  show ?thesis
  proof (cases "take 7 G = take 7 ?F")
    case True
    have "read_response_length_' scripted (Some G # Some ?F' # rs, sent)
            = (?len, (Some ?F' # rs, sent @ [?nack]))"
      by (rule probe_delivered [OF len lenG True])
    then show ?thesis by (rule body_fails)
  next
    case False
    with G have GF': "G = ?F'" by auto
    have i45: "i = 4 \<or> i = 5"
    proof (rule ccontr)
      assume "\<not> (i = 4 \<or> i = 5)"
      with i have "7 \<le> i" by auto
      then have "take 7 ?F' = take 7 ?F" by simp
      with False GF' show False by simp
    qed
    have "?F' ! 4 + ?F' ! 5 \<noteq> 0"
    proof (cases "i = 4")
      case True
      with v have "v + - ?L \<noteq> 0" by (simp add: delivered_head del: of_nat_Suc of_nat_add)
      then show ?thesis
        using True by (simp add: length_delivered delivered_head del: of_nat_Suc of_nat_add)
    next
      case False
      with i45 have 5: "i = 5" by simp
      with v have "?L + v \<noteq> 0"
        by (simp add: delivered_head add_eq_0_iff del: of_nat_Suc of_nat_add)
      then show ?thesis
        using 5 by (simp add: length_delivered delivered_head del: of_nat_Suc of_nat_add)
    qed
    moreover have "?F' ! 1 = 0x00"
      using i45 delivered_head(1) [of lead command payload] by auto
    ultimately have "read_response_length_' scripted (Some G # Some ?F' # rs, sent)
                       = (0, (Some ?F' # rs, sent))"
      unfolding GF' [symmetric]
      using read_response_length_scripted [OF lenG, of "Some G # rs" sent] GF'
      by (simp add: read_response_length_scripted [OF lenG])
    then show ?thesis by (simp add: read_response_probe_zero)
  qed
qed

lemma response_frame_layout:
  "response_frame data =
     (command_frame data)[5 := 0xD5,
        6 + length data := command_frame data ! (6 + length data) - 1]"
  by (simp add: response_frame_def command_frame_eq list_update_append nth_append
      del: of_nat_Suc of_nat_add)

lemma read_response_rejects_command_frame:
  "read_response_' scripted command data0 (Some (lead # command_frame data) # rs, sent)
     = (False, data0, (rs, sent))"
proof -
  let ?bs = "lead # command_frame data"
  have len: "7 \<le> length ?bs" by (simp add: command_frame_eq)
  have nth: "?bs ! 1 = 0x00" "?bs ! 6 = 0xD4"
    by (simp_all add: command_frame_eq del: of_nat_Suc of_nat_add)
  have "read_response_length_' scripted (Some ?bs # rs, sent) = (0, (rs, sent))"
    unfolding read_response_length_scripted [OF len] nth by simp
  then show ?thesis by (rule read_response_probe_zero)
qed

text \<open>
  Claim C3 (as amended). The parser undoes the frame layout of the builder for frames
  that travel from the device to the host: for every command other than 0xFF and every
  payload of at most 253 bytes, when both reads of the two-phase read are answered with
  the response frame (direction byte 0xD5, data = command echo followed by the payload)
  behind the leading status byte of the bus, \<open>read_response_\<close> succeeds, returns
  exactly the payload and has sent one retransmit request. When the length byte, the
  length checksum, the data checksum or the postamble of the frame answered to the
  second read (or to both reads) is changed to any other value, \<open>read_response_\<close>
  fails. A frame built by \<open>write_command_\<close> (direction byte 0xD4), answered behind
  the leading status byte, is rejected for every command and every data: the length
  probe fails, no retransmit request is sent and \<open>data\<close> is left as it was.
\<close>

theorem read_response_round_trip:
  "(length payload \<le> 253 \<and> command \<noteq> 0xFF \<longrightarrow>
     read_response_' scripted command data0
       (Some (delivered lead command payload) # Some (delivered lead command payload) # rs, sent)
       = (True, payload, (rs, sent @ [[0x00, 0x00, 0xFF, 0xFF, 0x00, 0x00]]))
     \<and> (\<forall>i v G.
           (i = 4 \<or> i = 5 \<or> i = length payload + 8 \<or> i = length payload + 9)
           \<and> v \<noteq> delivered lead command payload ! i
           \<and> (G = delivered lead command payload \<or> G = (delivered lead command payload)[i := v])
           \<longrightarrow> fst (read_response_' scripted command data0
                      (Some G # Some ((delivered lead command payload)[i := v]) # rs, sent))
                 = False))
   \<and> read_response_' scripted command' data0' (Some (lead' # command_frame data) # rs', sent')
       = (False, data0', (rs', sent'))"
proof (intro conjI impI allI)
  assume h: "length payload \<le> 253 \<and> command \<noteq> 0xFF"
  then show "read_response_' scripted command data0
       (Some (delivered lead command payload) # Some (delivered lead command payload) # rs, sent)
       = (True, payload, (rs, sent @ [[0x00, 0x00, 0xFF, 0xFF, 0x00, 0x00]]))"
    by (simp add: read_response_round_trip_part)
next
  fix i v G
  assume h: "length payload \<le> 253 \<and> command \<noteq> 0xFF"
    and m: "(i = 4 \<or> i = 5 \<or> i = length payload + 8 \<or> i = length payload + 9)
           \<and> v \<noteq> delivered lead command payload ! i
           \<and> (G = delivered lead command payload \<or> G = (delivered lead command payload)[i := v])"
  show "fst (read_response_' scripted command data0
               (Some G # Some ((delivered lead command payload)[i := v]) # rs, sent)) = False"
    by (rule read_response_mutated) (use h m in simp_all)
next
  show "read_response_' scripted command' data0' (Some (lead' # command_frame data) # rs', sent')
       = (False, data0', (rs', sent'))"
    by (rule read_response_rejects_command_frame)
qed

text \<open>
  Witness for C3: the response "no target" (payload 0x00) to the command 0x4A, the
  same frame with its data checksum changed from 0xE0 to 0xE1 in the second read, and
  the command frame of "list one passive target" fed back to the parser.
\<close>

theorem read_response_round_trip_witness:
  "length [0x00 :: byte] \<le> 253 \<and> (0x4A :: byte) \<noteq> 0xFF
   \<and> delivered 0x01 0x4A [0x00]
       = [0x01, 0x00, 0x00, 0xFF, 0x03, 0xFD, 0xD5, 0x4B, 0x00, 0xE0, 0x00]
   \<and> read_response_' scripted 0x4A []
        ([Some (delivered 0x01 0x4A [0x00]), Some (delivered 0x01 0x4A [0x00])], [])
       = (True, [0x00], ([], [[0x00, 0x00, 0xFF, 0xFF, 0x00, 0x00]]))
   \<and> fst (read_response_' scripted 0x4A []
             ([Some (delivered 0x01 0x4A [0x00]),
               Some ((delivered 0x01 0x4A [0x00])[9 := 0xE1])], [])) = False
   \<and> read_response_' scripted 0x4A []
        ([Some (0x01 # command_frame [0x4A, 0x01, 0x00]),
          Some (0x01 # command_frame [0x4A, 0x01, 0x00])], [])
       = (False, [], ([Some (0x01 # command_frame [0x4A, 0x01, 0x00])], []))"
proof -
  have eq: "delivered 0x01 0x4A [0x00]
              = [0x01, 0x00, 0x00, 0xFF, 0x03, 0xFD, 0xD5, 0x4B, 0x00, 0xE0, 0x00]"
    by (simp add: delivered_def response_frame_def)
  have hyp: "length [0x00 :: byte] \<le> 253 \<and> (0x4A :: byte) \<noteq> 0xFF" by simp
  note all = read_response_round_trip [of "[0x00]" "0x4A" "[]" "0x01" "[]" "[]" "0x4A" "[]" "0x01"
                     "[0x4A, 0x01, 0x00]" "[Some (0x01 # command_frame [0x4A, 0x01, 0x00])]" "[]"]
  note rt = all [THEN conjunct1, rule_format, OF hyp]
  have mut: "fst (read_response_' scripted 0x4A []
             ([Some (delivered 0x01 0x4A [0x00]),
               Some ((delivered 0x01 0x4A [0x00])[9 := 0xE1])], [])) = False"
    using rt [THEN conjunct2, rule_format, of 9 "0xE1" "delivered 0x01 0x4A [0x00]"]
    by (simp add: eq)
  from rt [THEN conjunct1] eq mut all [THEN conjunct2] show ?thesis by simp
qed

text \<open>
  Counterexample to C3 as stated: the frame that the builder builds for the data
  0x4B 0x00 is rejected by \<open>read_response_\<close> for the command 0x4A. Behind a leading
  status byte its direction byte 0xD4 is read where 0xD5 is required; delivered as it
  is, its fields are read one position off and the length checksum test fails.
\<close>

theorem read_response_command_frame_counterexample:
  "fst (read_response_' scripted 0x4A []
          ([Some (0x01 # command_frame [0x4B, 0x00]), Some (0x01 # command_frame [0x4B, 0x00])], []))
     = False
   \<and> fst (read_response_' scripted 0x4A []
          ([Some (command_frame [0x4B, 0x00]), Some (command_frame [0x4B, 0x00])], []))
     = False"
  by (simp add: read_response_probe_zero read_response_length_scripted command_frame_eq)

subsection \<open>The preamble test\<close>

text \<open>
  Claim C5. The claim: a response whose preamble or start code deviates from
  0x00, 0x00 0xFF in any one byte is rejected by \<open>read_response_\<close> and by the length
  probe. The code rejects only when all three bytes deviate (pn532.cpp, lines 266 and
  312: the three inequalities are joined by \<open>&&\<close>). Here the delivered buffer has
  the preamble 0xAA, and then also the first start code byte 0xBB; the probe returns
  the length 2 and \<open>read_response_\<close> returns the payload.
\<close>

theorem read_response_accepts_bad_preamble:
  "read_response_length_' scripted
     ([Some [0x01, 0xAA, 0x00, 0xFF, 0x03, 0xFD, 0xD5, 0x4B, 0x00, 0xE0, 0x00]], [])
     = (2, ([], [[0x00, 0x00, 0xFF, 0xFF, 0x00, 0x00]]))
   \<and> read_response_' scripted 0x4A []
       ([Some [0x01, 0xAA, 0x00, 0xFF, 0x03, 0xFD, 0xD5, 0x4B, 0x00, 0xE0, 0x00],
         Some [0x01, 0xAA, 0x00, 0xFF, 0x03, 0xFD, 0xD5, 0x4B, 0x00, 0xE0, 0x00]], [])
     = (True, [0x00], ([], [[0x00, 0x00, 0xFF, 0xFF, 0x00, 0x00]]))
   \<and> read_response_' scripted 0x4A []
       ([Some [0x01, 0xAA, 0xBB, 0xFF, 0x03, 0xFD, 0xD5, 0x4B, 0x00, 0xE0, 0x00],
         Some [0x01, 0xAA, 0xBB, 0xFF, 0x03, 0xFD, 0xD5, 0x4B, 0x00, 0xE0, 0x00]], [])
     = (True, [0x00], ([], [[0x00, 0x00, 0xFF, 0xFF, 0x00, 0x00]]))"
  by (simp add: read_response_'_def read_response_length_scripted read_data_scripted_Some)

section \<open>Properties of the block loops\<close>

subsection \<open>Trailer blocks are skipped\<close>

lemma unat_byte_succ_mod4: "unat ((b :: byte) + 1) mod 4 = (unat b + 1) mod 4"
proof -
  have "unat (b + 1) mod 4 = ((unat b + 1) mod 256) mod 4" by (simp add: unat_byte_add)
  also have "\<dots> = (unat b + 1) mod 4" by (simp add: mod_mod_cancel)
  finally show ?thesis .
qed

lemma block_address_advance_not_trailer:
  "\<not> mifare_classic_is_trailer_block (block_address_advance b)"
proof (cases "unat (b + 1) mod 4 = 3")
  case True
  have "unat (b + 1 + 1) mod 4 = (unat (b + 1) + 1) mod 4" by (rule unat_byte_succ_mod4)
  also have "\<dots> = 0" using True by presburger
  finally show ?thesis
    using True by (simp add: block_address_advance_def mifare_classic_is_trailer_block_def Let_def)
next
  case False
  then show ?thesis
    by (simp add: block_address_advance_def mifare_classic_is_trailer_block_def Let_def)
qed

lemma block_address_advance_iterate_not_trailer:
  "\<not> mifare_classic_is_trailer_block ((block_address_advance ^^ n) 4)"
proof (cases n)
  case 0
  then show ?thesis by (simp add: mifare_classic_is_trailer_block_def)
next
  case (Suc m)
  then show ?thesis by (simp add: block_address_advance_not_trailer)
qed

lemma read_blocks_ignores_trailers:
  assumes "\<And>b buffer st. \<not> mifare_classic_is_trailer_block b \<Longrightarrow> body b buffer st = body' b buffer st"
    and "\<not> mifare_classic_is_trailer_block current_block"
  shows "read_blocks body index buffer_size current_block buffer st
           = read_blocks body' index buffer_size current_block buffer st"
  using assms
proof (induction body index buffer_size current_block buffer st rule: read_blocks.induct)
  case (1 body index buffer_size current_block buffer st)
  note l = read_blocks.simps [of body index buffer_size current_block buffer st]
  note r = read_blocks.simps [of body' index buffer_size current_block buffer st]
  have same: "body' current_block buffer st = body current_block buffer st"
    using "1.prems" by simp
  show ?case
  proof (cases "index < buffer_size")
    case False
    then show ?thesis unfolding l r by simp
  next
    case True
    show ?thesis
    proof (cases "body current_block buffer st")
      case (Inl f)
      with True show ?thesis unfolding l r same by simp
    next
      case (Inr p)
      obtain buffer' st' where p: "p = (buffer', st')" by (cases p)
      show ?thesis
      proof (cases "2 ^ 32 \<le> index + BLOCK_SIZE")
        case wrap: True
        with True Inr p show ?thesis unfolding l r same by simp
      next
        case nowrap: False
        have "read_blocks body (index + BLOCK_SIZE) buffer_size (block_address_advance current_block) buffer' st'
              = read_blocks body' (index + BLOCK_SIZE) buffer_size (block_address_advance current_block) buffer' st'"
          by (rule "1.IH" [OF True Inr p [symmetric] nowrap "1.prems"(1)])
             (simp_all add: block_address_advance_not_trailer)
        with True Inr p nowrap show ?thesis unfolding l r same by simp
      qed
    qed
  qed
qed

lemma write_blocks_ignores_trailers:
  assumes "\<And>index b st. \<not> mifare_classic_is_trailer_block b \<Longrightarrow> body index b st = body' index b st"
    and "\<not> mifare_classic_is_trailer_block current_block"
  shows "write_blocks body bound index current_block st
           = write_blocks body' bound index current_block st"
  using assms
proof (induction body bound index current_block st rule: write_blocks.induct)
  case (1 body bound index current_block st)
  note l = write_blocks.simps [of body bound index current_block st]
  note r = write_blocks.simps [of body' bound index current_block st]
  have same: "body' index current_block st = body index current_block st"
    using "1.prems" by simp
  show ?case
  proof (cases "index < bound")
    case False
    then show ?thesis unfolding l r by simp
  next
    case True
    show ?thesis
    proof (cases "body index current_block st")
      case (Inl f)
      with True show ?thesis unfolding l r same by simp
    next
      case (Inr p)
      obtain ok st' where p: "p = (ok, st')" by (cases p)
      show ?thesis
      proof (cases "ok \<and> \<not> 2 ^ 32 \<le> index + BLOCK_SIZE")
        case False
        with True Inr p show ?thesis unfolding l r same by auto
      next
        case go: True
        then have ok: "ok = True" and nowrap: "\<not> 2 ^ 32 \<le> index + BLOCK_SIZE" by simp_all
        have "write_blocks body bound (index + BLOCK_SIZE) (block_address_advance current_block) st'
              = write_blocks body' bound (index + BLOCK_SIZE) (block_address_advance current_block) st'"
          by (rule "1.IH" [OF True Inr p [symmetric] ok nowrap "1.prems"(1)])
             (simp_all add: block_address_advance_not_trailer)
        with True Inr p go show ?thesis unfolding l r same by simp
      qed
    qed
  qed
qed

lemma adv_vals:
  "block_address_advance 4 = 5" "block_address_advance 5 = 6" "block_address_advance 6 = 8"
  "block_address_advance 8 = 9" "block_address_advance 9 = 10" "block_address_advance 10 = 12"
  by (simp_all add: block_address_advance_def mifare_classic_is_trailer_block_def Let_def)

lemma first_blocks: "map (\<lambda>n. (block_address_advance ^^ n) 4) [0 ..< 7] = [4, 5, 6, 8, 9, 10, 12]"
proof -
  have "[0 ..< 7] = [0, Suc 0, Suc (Suc 0), Suc (Suc (Suc 0)), Suc (Suc (Suc (Suc 0))),
           Suc (Suc (Suc (Suc (Suc 0)))), Suc (Suc (Suc (Suc (Suc (Suc 0)))))]"
    by (simp add: upt_rec)
  then show ?thesis by (simp add: adv_vals)
qed

text \<open>
  Claim C7. Starting from block 4, the advance rule of the block loops (increment, and
  increment once more when the result is congruent to 3 modulo 4) never yields a
  trailer block, also across the wrap-around of the 8-bit block number; the sequence
  from 4 starts 4, 5, 6, 8, 9, 10, 12. Consequently the read loop and the write loop,
  started at block 4, never hand a trailer block to their body: replacing the body by
  one that differs at trailer blocks only does not change what the loop does.
\<close>

theorem block_address_advance_skips_trailers:
  "unat ((block_address_advance ^^ n) 4) mod 4 \<noteq> 3
   \<and> map (\<lambda>n. (block_address_advance ^^ n) 4) [0 ..< 7] = [4, 5, 6, 8, 9, 10, 12]
   \<and> ((\<forall>b buffer st. unat b mod 4 \<noteq> 3 \<longrightarrow> rbody b buffer st = rbody' b buffer st)
        \<longrightarrow> read_blocks rbody rindex buffer_size 4 rbuffer rst
            = read_blocks rbody' rindex buffer_size 4 rbuffer rst)
   \<and> ((\<forall>index b st. unat b mod 4 \<noteq> 3 \<longrightarrow> wbody index b st = wbody' index b st)
        \<longrightarrow> write_blocks wbody bound windex 4 wst = write_blocks wbody' bound windex 4 wst)"
proof -
  have start: "\<not> mifare_classic_is_trailer_block 4"
    by (simp add: mifare_classic_is_trailer_block_def)
  have 1: "unat ((block_address_advance ^^ n) 4) mod 4 \<noteq> 3"
    using block_address_advance_iterate_not_trailer [of n]
    by (simp add: mifare_classic_is_trailer_block_def)
  have 3: "read_blocks rbody rindex buffer_size 4 rbuffer rst
             = read_blocks rbody' rindex buffer_size 4 rbuffer rst"
    if "\<forall>b buffer st. unat b mod 4 \<noteq> 3 \<longrightarrow> rbody b buffer st = rbody' b buffer st"
    by (rule read_blocks_ignores_trailers [OF _ start])
       (use that in \<open>simp add: mifare_classic_is_trailer_block_def\<close>)
  have 4: "write_blocks wbody bound windex 4 wst = write_blocks wbody' bound windex 4 wst"
    if "\<forall>index b st. unat b mod 4 \<noteq> 3 \<longrightarrow> wbody index b st = wbody' index b st"
    by (rule write_blocks_ignores_trailers [OF _ start])
       (use that in \<open>simp add: mifare_classic_is_trailer_block_def\<close>)
  from 1 first_blocks 3 4 show ?thesis by blast
qed

text \<open>
  Witness for C7: the bodies of \<open>read_tag_\<close> and of the write loops on the scripted
  device, against bodies that fault at every trailer block; three blocks are read and
  three are written (48 bytes), and the third block of the sequence is block 8.
\<close>

theorem block_address_advance_skips_trailers_witness:
  "unat ((block_address_advance ^^ 3) 4) mod 4 \<noteq> 3
   \<and> (block_address_advance ^^ 3) 4 = 8
   \<and> read_blocks (read_tag_block scripted [0x04, 0x01, 0x02, 0x03]) 0 48 4 [] ([], [])
       = read_blocks (\<lambda>b buffer st. if unat b mod 4 = 3 then Inl OutOfRange
                        else read_tag_block scripted [0x04, 0x01, 0x02, 0x03] b buffer st)
           0 48 4 [] ([], [])
   \<and> write_blocks (write_tag_block scripted [0x04, 0x01, 0x02, 0x03] (replicate 48 0)) 48 0 4 ([], [])
       = write_blocks (\<lambda>index b st. if unat b mod 4 = 3 then Inl OutOfRange
                        else write_tag_block scripted [0x04, 0x01, 0x02, 0x03] (replicate 48 0) index b st)
           48 0 4 ([], [])"
  using block_address_advance_skips_trailers
    [of 3 "read_tag_block scripted [0x04, 0x01, 0x02, 0x03]"
        "\<lambda>b buffer st. if unat b mod 4 = 3 then Inl OutOfRange
                        else read_tag_block scripted [0x04, 0x01, 0x02, 0x03] b buffer st"
        0 48 "[]" "([], [])"
        "write_tag_block scripted [0x04, 0x01, 0x02, 0x03] (replicate 48 0)"
        "\<lambda>index b st. if unat b mod 4 = 3 then Inl OutOfRange
                        else write_tag_block scripted [0x04, 0x01, 0x02, 0x03] (replicate 48 0) index b st"
        48 0 "([], [])"]
  by (simp add: numeral_3_eq_3 adv_vals)

section \<open>Properties of the tag operations\<close>

subsection \<open>The TLV header of a written message\<close>

lemma write_tag_buffer_short:
  "length encoded < 255 \<Longrightarrow>
     write_tag_buffer encoded = [0x03, of_nat (length encoded + 1)] @ encoded @ [0xFE]"
  by (simp add: write_tag_buffer_def vec_insert_def Let_def del: of_nat_Suc of_nat_add)

lemma write_tag_buffer_long:
  "\<not> length encoded < 255 \<Longrightarrow>
     write_tag_buffer encoded =
       [0x03, 0xFF, of_nat ((length encoded + 3) AND 0xFF),
        of_nat (drop_bit 8 (length encoded + 2) AND 0xFF)] @ encoded @ [0xFE]"
  by (simp add: write_tag_buffer_def vec_insert_def Let_def numeral_3_eq_3 numeral_2_eq_2
      del: of_nat_Suc of_nat_add)

lemma write_mifare_classic_tag_buffer_head:
  "write_mifare_classic_tag_buffer encoded =
     vec_resize
       ((if length encoded < 255 then [0x03, of_nat (length encoded)]
         else [0x03, 0xFF, of_nat (drop_bit 8 (length encoded) AND 0xFF),
               of_nat (length encoded AND 0xFF)]) @ encoded @ [0xFE])
       (get_mifare_classic_buffer_size (length encoded)) 0"
  by (simp add: write_mifare_classic_tag_buffer_def vec_insert_def Let_def)

lemma write_sample_short: "write_tag_buffer [0xD0, 0x00, 0x00] = [0x03, 0x04, 0xD0, 0x00, 0x00, 0xFE]"
  by (simp add: write_tag_buffer_short)

lemma write_sample_long: "take 4 (write_tag_buffer (replicate 300 0x00)) = [0x03, 0xFF, 0x2F, 0x01]"
  by (simp add: write_tag_buffer_long)

lemma buffer_size_3: "get_mifare_classic_buffer_size (Suc (Suc (Suc 0))) = 16"
  by (simp add: get_mifare_classic_buffer_size_def)

lemma buffer_size_300: "get_mifare_classic_buffer_size 300 = 320"
  by (simp add: get_mifare_classic_buffer_size_def)

lemma write_sample_short_classic:
  "write_mifare_classic_tag_buffer [0xD0, 0x00, 0x00]
       = [0x03, 0x03, 0xD0, 0x00, 0x00, 0xFE] @ replicate 10 0x00"
  by (simp add: write_mifare_classic_tag_buffer_head vec_resize_def buffer_size_3)

lemma write_sample_long_classic:
  "take 4 (write_mifare_classic_tag_buffer (replicate 300 0x00)) = [0x03, 0xFF, 0x01, 0x2C]"
  by (simp add: write_mifare_classic_tag_buffer_head vec_resize_def buffer_size_300)

lemma buffer_size_ge:
  "message_length + (if message_length < 255 then 2 else 4) + 1
     \<le> get_mifare_classic_buffer_size message_length"
  unfolding get_mifare_classic_buffer_size_def Let_def
  by presburger

lemma vec_resize_pad: "length xs \<le> n \<Longrightarrow> vec_resize xs n v = xs @ replicate (n - length xs) v"
  by (simp add: vec_resize_def)

lemma and_255_nat: "(n :: nat) AND 0xFF = n mod 256"
proof -
  have "(0xFF :: nat) = mask 8" by (simp add: mask_eq_exp_minus_1)
  then have "n AND 0xFF = take_bit 8 n" by (simp add: take_bit_eq_mask)
  then show ?thesis by (simp add: take_bit_eq_mod)
qed

lemma big_endian_length:
  assumes "n < 65536"
  shows "unat (of_nat (drop_bit 8 n AND 0xFF) :: byte) * 256 + unat (of_nat (n AND 0xFF) :: byte) = n"
proof -
  have "n div 256 < 256" using assms by simp
  then have hi: "drop_bit 8 n AND 0xFF = n div 256"
    by (simp add: and_255_nat drop_bit_eq_div)
  have "unat (of_nat (n div 256) :: byte) = n div 256"
    using assms by (simp add: unat_of_nat)
  moreover have "unat (of_nat (n mod 256) :: byte) = n mod 256"
    by (simp add: unat_of_nat)
  ultimately show ?thesis unfolding and_255_nat [of n] hi by simp
qed

lemma write_mifare_classic_tag_buffer_tlv:
  "write_mifare_classic_tag_buffer encoded =
     (if length encoded < 255 then [0x03, of_nat (length encoded)]
      else [0x03, 0xFF, of_nat (drop_bit 8 (length encoded) AND 0xFF),
            of_nat (length encoded AND 0xFF)]) @ encoded @ [0xFE]
     @ replicate (get_mifare_classic_buffer_size (length encoded)
                   - (length encoded + (if length encoded < 255 then 2 else 4) + 1)) 0x00"
proof (cases "length encoded < 255")
  case True
  let ?xs = "[0x03, of_nat (length encoded)] @ encoded @ [0xFE :: byte]"
  have "length ?xs \<le> get_mifare_classic_buffer_size (length encoded)"
    using buffer_size_ge [of "length encoded"] True by simp
  from vec_resize_pad [OF this] True show ?thesis
    by (simp add: write_mifare_classic_tag_buffer_head)
next
  case False
  let ?xs = "[0x03, 0xFF, of_nat (drop_bit 8 (length encoded) AND 0xFF),
            of_nat (length encoded AND 0xFF)] @ encoded @ [0xFE :: byte]"
  have "length ?xs \<le> get_mifare_classic_buffer_size (length encoded)"
    using buffer_size_ge [of "length encoded"] False by simp
  from vec_resize_pad [OF this] False show ?thesis
    by (simp add: write_mifare_classic_tag_buffer_head add.commute)
qed

text \<open>
  Claim C1. The claim: the buffer written to the blocks is the encoded message behind
  the TLV header 0x03, length (one byte below 255, else 0xFF and two bytes, big-endian)
  and before the terminator 0xFE. \<open>write_mifare_classic_tag_\<close> builds that buffer
  (lemmas \<open>write_mifare_classic_tag_buffer_tlv\<close> and \<open>big_endian_length\<close>).
  \<open>write_tag_\<close>, the function that \<open>loop\<close> and \<open>erase_tag_\<close> call, does not: it
  reads \<open>encoded.size()\<close> after the type byte has been inserted, and in the long form
  inserts the low byte in front of the high byte. For the 3-byte message 0xD0 0x00 0x00
  its length byte is 4, and for a message of 300 bytes its header is 0x03 0xFF 0x2F 0x01
  instead of 0x03 0xFF 0x01 0x2C.
\<close>

theorem write_tag_buffer_length_bytes:
  "write_tag_buffer [0xD0, 0x00, 0x00] = [0x03, 0x04, 0xD0, 0x00, 0x00, 0xFE]
   \<and> take 4 (write_tag_buffer (replicate 300 0x00)) = [0x03, 0xFF, 0x2F, 0x01]
   \<and> write_mifare_classic_tag_buffer [0xD0, 0x00, 0x00]
       = [0x03, 0x03, 0xD0, 0x00, 0x00, 0xFE] @ replicate 10 0x00
   \<and> take 4 (write_mifare_classic_tag_buffer (replicate 300 0x00)) = [0x03, 0xFF, 0x01, 0x2C]"
  using write_sample_short write_sample_long write_sample_short_classic write_sample_long_classic
  by blast

subsection \<open>The sector accessor on the scripted device\<close>

lemma write_command_scripted_ack:
  "write_command_' scripted data (ack_answer # rs, sent) = (True, (rs, sent @ [command_frame data]))"
  by (simp add: write_command_'_def read_ack_'_def write_data_scripted read_data_scripted_Some
      ack_answer_def)

lemma write_command_scripted_end:
  "write_command_' scripted data ([], sent) = (False, ([], sent @ [command_frame data]))"
  by (simp add: write_command_'_def read_ack_'_def write_data_scripted read_data_scripted_Nil)

lemma read_response_scripted_answer:
  "length payload \<le> 253 \<Longrightarrow> command \<noteq> 0xFF \<Longrightarrow>
     read_response_' scripted command data0 (answer command payload # answer command payload # rs, sent)
       = (True, payload, (rs, sent @ [[0x00, 0x00, 0xFF, 0xFF, 0x00, 0x00]]))"
  unfolding answer_def by (rule read_response_round_trip_part)

lemma read_response_scripted_end:
  "read_response_' scripted command data0 ([], sent) = (False, data0, ([], sent))"
  by (simp add: read_response_'_def read_response_length_'_def read_data_scripted_Nil)

lemma auth_scripted_ok:
  "auth_mifare_classic_block_' scripted uid block_num key_num key
     (ack_answer # answer 0x40 [0x00] # answer 0x40 [0x00] # rs, sent)
   = Inr (True, (rs, sent @ [command_frame ([0x40, 0x01, key_num, block_num] @ take 6 key @ uid),
                             [0x00, 0x00, 0xFF, 0xFF, 0x00, 0x00]]))"
  by (simp add: auth_mifare_classic_block_'_def PN532_COMMAND_INDATAEXCHANGE_def
      write_command_scripted_ack read_response_scripted_answer)

lemma auth_scripted_end:
  "auth_mifare_classic_block_' scripted uid block_num key_num key ([], sent)
   = Inr (False, ([], sent @ [command_frame ([0x40, 0x01, key_num, block_num] @ take 6 key @ uid)]))"
  by (simp add: auth_mifare_classic_block_'_def PN532_COMMAND_INDATAEXCHANGE_def
      write_command_scripted_end)

lemma read_block_scripted_ok:
  "length block \<le> 252 \<Longrightarrow>
   read_mifare_classic_block_' scripted block_num data
     (ack_answer # answer 0x40 (0x00 # block) # answer 0x40 (0x00 # block) # rs, sent)
   = Inr (True, block, (rs, sent @ [command_frame [0x40, 0x01, 0x30, block_num],
                                    [0x00, 0x00, 0xFF, 0xFF, 0x00, 0x00]]))"
  by (simp add: read_mifare_classic_block_'_def PN532_COMMAND_INDATAEXCHANGE_def MIFARE_CMD_READ_def
      write_command_scripted_ack read_response_scripted_answer)

lemma read_block_scripted_end:
  "read_mifare_classic_block_' scripted block_num data ([], sent)
   = Inr (False, data, ([], sent @ [command_frame [0x40, 0x01, 0x30, block_num]]))"
  by (simp add: read_mifare_classic_block_'_def PN532_COMMAND_INDATAEXCHANGE_def MIFARE_CMD_READ_def
      write_command_scripted_end)

lemma write_block_scripted_ok:
  "write_mifare_classic_block_' scripted block_num block
     (ack_answer # answer 0x40 [0x00] # answer 0x40 [0x00] # rs, sent)
   = (True, (rs, sent @ [command_frame ([0x40, 0x01, 0xA0, block_num] @ block),
                         [0x00, 0x00, 0xFF, 0xFF, 0x00, 0x00]]))"
  by (simp add: write_mifare_classic_block_'_def PN532_COMMAND_INDATAEXCHANGE_def MIFARE_CMD_WRITE_def
      write_command_scripted_ack read_response_scripted_answer)

lemma write_block_scripted_end:
  "write_mifare_classic_block_' scripted block_num block ([], sent)
   = (False, ([], sent @ [command_frame ([0x40, 0x01, 0xA0, block_num] @ block)]))"
  by (simp add: write_mifare_classic_block_'_def PN532_COMMAND_INDATAEXCHANGE_def MIFARE_CMD_WRITE_def
      write_command_scripted_end)

lemma ndef_block_facts: "length ndef_block = 16" "ndef_block \<noteq> []" "spec_decode_tlv ndef_block = Some (3, 2)"
  by (simp_all add: ndef_block_def spec_decode_tlv_def)

lemma buffer_size_3': "get_buffer_size 3 = 16"
  by (simp add: get_buffer_size_def get_mifare_classic_buffer_size_def)

lemma first_block_4: "mifare_classic_is_first_block 4"
  by (simp add: mifare_classic_is_first_block_def)

lemma long_block_facts: "length long_block = 16" "long_block \<noteq> []" "spec_decode_tlv long_block = Some (20, 2)"
  by (simp_all add: long_block_def spec_decode_tlv_def)

lemma buffer_size_20: "get_buffer_size 20 = 32" "get_mifare_classic_buffer_size 20 = 32"
  "get_mifare_classic_buffer_size 3 = 16"
  by (simp_all add: get_buffer_size_def get_mifare_classic_buffer_size_def)

lemma first_block_5: "\<not> mifare_classic_is_first_block 5"
  by (simp add: mifare_classic_is_first_block_def)

lemma read_block_scripted_status:
  "length payload \<le> 253 \<Longrightarrow> payload \<noteq> [] \<Longrightarrow> payload ! 0 \<noteq> 0x00 \<Longrightarrow>
   read_mifare_classic_block_' scripted block_num data
     (ack_answer # answer 0x40 payload # answer 0x40 payload # rs, sent)
   = Inr (False, payload, (rs, sent @ [command_frame [0x40, 0x01, 0x30, block_num],
                                       [0x00, 0x00, 0xFF, 0xFF, 0x00, 0x00]]))"
  by (simp add: read_mifare_classic_block_'_def PN532_COMMAND_INDATAEXCHANGE_def MIFARE_CMD_READ_def
      write_command_scripted_ack read_response_scripted_answer)

lemma write_command_scripted_timeout:
  "write_command_' scripted data (None # rs, sent) = (False, (rs, sent @ [command_frame data]))"
  by (simp add: write_command_'_def read_ack_'_def write_data_scripted read_data_scripted_None)

lemma write_block_scripted_timeout:
  "write_mifare_classic_block_' scripted block_num block (None # rs, sent)
   = (False, (rs, sent @ [command_frame ([0x40, 0x01, 0xA0, block_num] @ block)]))"
  by (simp add: write_mifare_classic_block_'_def PN532_COMMAND_INDATAEXCHANGE_def MIFARE_CMD_WRITE_def
      write_command_scripted_timeout)

lemma auth_scripted_status:
  "status \<noteq> 0x00 \<Longrightarrow>
   auth_mifare_classic_block_' scripted uid block_num key_num key
     (ack_answer # answer 0x40 [status] # answer 0x40 [status] # rs, sent)
   = Inr (False, (rs, sent @ [command_frame ([0x40, 0x01, key_num, block_num] @ take 6 key @ uid),
                              [0x00, 0x00, 0xFF, 0xFF, 0x00, 0x00]]))"
  by (simp add: auth_mifare_classic_block_'_def PN532_COMMAND_INDATAEXCHANGE_def
      write_command_scripted_ack read_response_scripted_answer)

lemma write_blocks_abort:
  "index < bound \<Longrightarrow> body index current_block st = Inr (False, st') \<Longrightarrow>
     write_blocks body bound index current_block st = Inr (False, st')"
  by (simp add: write_blocks.simps [of body bound index])

lemma write_blocks_continue:
  "index < bound \<Longrightarrow> body index current_block st = Inr (True, st') \<Longrightarrow>
   index + BLOCK_SIZE < 2 ^ 32 \<Longrightarrow>
     write_blocks body bound index current_block st
       = write_blocks body bound (index + BLOCK_SIZE) (block_address_advance current_block) st'"
  by (simp add: write_blocks.simps [of body bound index])

lemma read_blocks_continue:
  "index < buffer_size \<Longrightarrow> body current_block buffer st = Inr (buffer', st') \<Longrightarrow>
   index + BLOCK_SIZE < 2 ^ 32 \<Longrightarrow>
     read_blocks body index buffer_size current_block buffer st
       = read_blocks body (index + BLOCK_SIZE) buffer_size (block_address_advance current_block)
           buffer' st'"
  by (simp add: read_blocks.simps [of body index])

lemma write_buffer_20:
  "write_mifare_classic_tag_buffer (replicate 20 0xAA)
     = [0x03, 0x14] @ replicate 20 0xAA @ [0xFE] @ replicate 9 0x00"
  by (simp add: write_mifare_classic_tag_buffer_tlv buffer_size_20)

subsection \<open>One step of the block loops\<close>

text \<open>
  In an iteration of the read loop of \<open>read_mifare_classic_tag_\<close> whose block read
  returns \<open>false\<close>, the buffer is left as it is and the loop goes on
  (\<open>read_blocks_continue\<close>); in the write loops, a failed authentication or a failed
  block write ends the loop at once with \<open>false\<close> (\<open>write_blocks_abort\<close>), in the
  state the failed exchange left.
\<close>

lemma read_mifare_classic_tag_block_failed_read:
  "\<not> mifare_classic_is_first_block current_block \<Longrightarrow>
   read_mifare_classic_block_' tr current_block [] st = Inr (False, block_data, st') \<Longrightarrow>
     read_mifare_classic_tag_block tr uid current_block buffer st = Inr (buffer, st')"
  by (simp add: read_mifare_classic_tag_block_def)

lemma read_mifare_classic_tag_block_read:
  "\<not> mifare_classic_is_first_block current_block \<Longrightarrow>
   read_mifare_classic_block_' tr current_block [] st = Inr (True, block_data, st') \<Longrightarrow>
     read_mifare_classic_tag_block tr uid current_block buffer st = Inr (buffer @ block_data, st')"
  by (simp add: read_mifare_classic_tag_block_def)

lemma write_tag_block_auth_failed:
  "mifare_classic_is_first_block current_block \<Longrightarrow>
   auth_mifare_classic_block_' tr uid current_block MIFARE_CMD_AUTH_A NDEF_KEY st = Inr (False, st') \<Longrightarrow>
     write_tag_block tr uid encoded index current_block st = Inr (False, st')"
  by (simp add: write_tag_block_def)

lemma write_tag_block_write_failed:
  "\<not> mifare_classic_is_first_block current_block \<Longrightarrow> index + BLOCK_SIZE \<le> length encoded \<Longrightarrow>
   write_mifare_classic_block_' tr current_block (take BLOCK_SIZE (drop index encoded)) st = (False, st') \<Longrightarrow>
     write_tag_block tr uid encoded index current_block st = Inr (False, st')"
  by (simp add: write_tag_block_def)

subsection \<open>The block loops as a whole\<close>

text \<open>
  As long as the 32-bit counter cannot wrap, the read loop is a \<open>for\<close> loop over the
  whole sequence of blocks, whatever its body does short of a fault; and the write loop
  returns \<open>false\<close>, in the state that the failing iteration left, as soon as an
  iteration yields \<open>False\<close> after \<open>k\<close> iterations that yielded \<open>True\<close>.
\<close>

lemma funpow_advance_shift:
  "(block_address_advance ^^ Suc j) b = (block_address_advance ^^ j) (block_address_advance b)"
  by (simp only: funpow_Suc_right comp_apply)

lemma block_seq_nth: "j < n \<Longrightarrow> block_seq n b ! j = (block_address_advance ^^ j) b"
proof (induction n arbitrary: b j)
  case 0
  then show ?case by simp
next
  case (Suc n)
  show ?case
  proof (cases j)
    case 0
    then show ?thesis by simp
  next
    case (Suc i)
    with Suc.prems have "i < n" by simp
    from Suc.IH [OF this, of "block_address_advance b"] Suc show ?thesis
      by (simp only: block_seq.simps nth_Cons_Suc funpow_advance_shift)
  qed
qed

lemma block_seq_no_trailer:
  "\<not> mifare_classic_is_trailer_block b \<Longrightarrow> c \<in> set (block_seq n b)
     \<Longrightarrow> \<not> mifare_classic_is_trailer_block c"
proof (induction n arbitrary: b)
  case 0
  then show ?case by simp
next
  case (Suc n)
  from Suc.prems(2) consider "c = b" | "c \<in> set (block_seq n (block_address_advance b))"
    by auto
  then show ?case
  proof cases
    case 1
    with Suc.prems(1) show ?thesis by simp
  next
    case 2
    from Suc.IH [OF block_address_advance_not_trailer this] show ?thesis .
  qed
qed

lemma iterations_step:
  fixes index :: nat
  assumes "index < buffer_size"
  shows "(buffer_size - index + 15) div 16 = Suc ((buffer_size - (index + 16) + 15) div 16)"
proof (cases "index + 16 \<le> buffer_size")
  case True
  define d where "d = buffer_size - (index + 16)"
  have "buffer_size - index + 15 = (d + 15) + 16" using True by (simp add: d_def)
  then have "(buffer_size - index + 15) div 16 = (d + 15) div 16 + 1"
    by (simp only: div_add_self2)
  then show ?thesis by (simp add: d_def)
next
  case False
  define e where "e = buffer_size - index"
  have e: "1 \<le> e" "e \<le> 15" using assms False by (simp_all add: e_def)
  have "(e + 15) div 16 = 1"
  proof -
    have "e + 15 = 16 + (e - 1)" using e by simp
    moreover have "(e - 1) div 16 = 0" using e by simp
    ultimately show ?thesis by simp
  qed
  moreover have "buffer_size - (index + 16) = 0" using False by simp
  ultimately show ?thesis by (simp add: e_def)
qed

lemma read_blocks_full_span:
  assumes "buffer_size + BLOCK_SIZE \<le> 2 ^ 32"
  shows "read_blocks body index buffer_size current_block buffer st
           = for_each (\<lambda>b s. body b (fst s) (snd s))
               (block_seq ((buffer_size - index + 15) div 16) current_block) (buffer, st)"
  using assms
proof (induction body index buffer_size current_block buffer st rule: read_blocks.induct)
  case (1 body index buffer_size current_block buffer st)
  note unfold = read_blocks.simps [of body index buffer_size current_block buffer st]
  show ?case
  proof (cases "index < buffer_size")
    case False
    then have "(buffer_size - index + 15) div 16 = 0" by simp
    with False show ?thesis unfolding unfold by simp
  next
    case True
    have nowrap: "\<not> 2 ^ 32 \<le> index + BLOCK_SIZE"
      using True "1.prems" by simp
    note n = iterations_step [OF True]
    show ?thesis
    proof (cases "body current_block buffer st")
      case (Inl f)
      with True show ?thesis unfolding unfold n by simp
    next
      case (Inr p)
      obtain buffer' st' where p: "p = (buffer', st')" by (cases p)
      from "1.IH" [OF True Inr p [symmetric] nowrap "1.prems"]
      show ?thesis unfolding unfold n using True Inr p nowrap by (simp add: BLOCK_SIZE_def)
    qed
  qed
qed

lemma write_blocks_first_failure:
  assumes "\<forall>j<k. body (index + BLOCK_SIZE * j) ((block_address_advance ^^ j) current_block) (S j)
                   = Inr (True, S (Suc j))"
    and "body (index + BLOCK_SIZE * k) ((block_address_advance ^^ k) current_block) (S k)
           = Inr (False, st')"
    and "index + BLOCK_SIZE * k < bound" and "bound + BLOCK_SIZE \<le> 2 ^ 32"
  shows "write_blocks body bound index current_block (S 0) = Inr (False, st')"
  using assms
proof (induction k arbitrary: index current_block S)
  case 0
  then show ?case by (simp add: write_blocks_abort)
next
  case (Suc k)
  have lt: "index < bound" using Suc.prems(3) by simp
  have nowrap: "index + BLOCK_SIZE < 2 ^ 32" using lt Suc.prems(4) by simp
  have first: "body index current_block (S 0) = Inr (True, S (Suc 0))"
    using Suc.prems(1) [rule_format, of 0] by simp
  have "write_blocks body bound (index + BLOCK_SIZE) (block_address_advance current_block) (S (Suc 0))
          = Inr (False, st')"
  proof (rule Suc.IH [of "index + BLOCK_SIZE" "block_address_advance current_block" "\<lambda>j. S (Suc j)"])
    show "\<forall>j<k. body (index + BLOCK_SIZE + BLOCK_SIZE * j)
                  ((block_address_advance ^^ j) (block_address_advance current_block)) (S (Suc j))
                = Inr (True, S (Suc (Suc j)))"
    proof (intro allI impI)
      fix j assume "j < k"
      then have "Suc j < Suc k" by simp
      from Suc.prems(1) [rule_format, OF this]
      show "body (index + BLOCK_SIZE + BLOCK_SIZE * j)
                  ((block_address_advance ^^ j) (block_address_advance current_block)) (S (Suc j))
                = Inr (True, S (Suc (Suc j)))"
        by (simp only: funpow_advance_shift mult_Suc_right add.assoc)
    qed
    show "body (index + BLOCK_SIZE + BLOCK_SIZE * k)
            ((block_address_advance ^^ k) (block_address_advance current_block)) (S (Suc k))
          = Inr (False, st')"
      using Suc.prems(2) by (simp only: funpow_advance_shift mult_Suc_right add.assoc)
    show "index + BLOCK_SIZE + BLOCK_SIZE * k < bound" using Suc.prems(3) by simp
    show "bound + BLOCK_SIZE \<le> 2 ^ 32" by (rule Suc.prems(4))
  qed
  with write_blocks_continue [of index bound body current_block "S 0" "S (Suc 0)", OF lt first nowrap]
  show ?case by simp
qed

section \<open>Evaluations of the driver on concrete exchanges\<close>

text \<open>
  Claim C2. The claim: a new UID is suppressed exactly when it equals the last UID byte
  for byte. The loop of pn532.cpp, lines 134-136, starts from \<open>same_uid = false\<close> and
  accumulates \<open>same_uid |= nfcid[i] == current_uid_[i]\<close>: two UIDs of the same length
  count as the same as soon as they agree in one position. Here the last UID is
  04 01 02 03 and the device reports one target with the UID 04 09 09 09: \<open>loop\<close>
  returns without storing the new UID and without reading the tag (no frame but the
  retransmit request of the response parser has been sent, no trigger has fired).
\<close>

theorem loop_suppresses_different_uid:
  "loop nfc scripted (awaiting [0x04, 0x01, 0x02, 0x03])
     ([answer 0x4A [0x01, 0x01, 0x00, 0x04, 0x08, 0x04, 0x04, 0x09, 0x09, 0x09],
       answer 0x4A [0x01, 0x01, 0x00, 0x04, 0x08, 0x04, 0x04, 0x09, 0x09, 0x09]], [])
   = Inr ((awaiting [0x04, 0x01, 0x02, 0x03])\<lparr>requested_read_' := False\<rparr>,
          ([], [[0x00, 0x00, 0xFF, 0xFF, 0x00, 0x00]]))"
  by (simp add: loop_def awaiting_def PN532_COMMAND_INLISTPASSIVETARGET_def
      read_response_scripted_answer Let_def upt_rec)

text \<open>
  Claim C9. The claim: every index that \<open>loop\<close> reads in the response lies inside
  it, and the UID bytes are read only when the response holds \<open>6 + nfcid_length\<close>
  bytes. The source reads \<open>read[0]\<close> and \<open>read[5]\<close> without testing the size, and
  builds \<open>nfcid\<close> from \<open>read[6 .. 6 + nfcid_length)\<close> on line 120, before the
  test of line 121. Here the response has 7 bytes and declares a UID of 4 bytes, of
  which it holds one; or it has one byte; or none.
\<close>

theorem loop_reads_uid_out_of_range:
  "loop nfc scripted (awaiting [])
     ([answer 0x4A [0x01, 0x01, 0x00, 0x04, 0x08, 0x04, 0xAA],
       answer 0x4A [0x01, 0x01, 0x00, 0x04, 0x08, 0x04, 0xAA]], [])
   = Inl OutOfRange
   \<and> loop nfc scripted (awaiting []) ([answer 0x4A [0x01], answer 0x4A [0x01]], []) = Inl OutOfRange
   \<and> loop nfc scripted (awaiting []) ([answer 0x4A [], answer 0x4A []], []) = Inl OutOfRange"
  by (simp add: loop_def awaiting_def PN532_COMMAND_INLISTPASSIVETARGET_def
      read_response_scripted_answer Let_def)

text \<open>
  Claim C4. The claim: when block 4 is authenticated and read, the TLV header is
  parsed from the block, and when the read of block 4 fails, a MIFARE Classic tag
  without payload is returned. \<open>read_tag_\<close> (pn532.cpp) does so: the third and
  fourth evaluations. In \<open>read_mifare_classic_tag_\<close> the test of line 16 is negated:
  after a successful read of a block with a valid TLV header it returns the tag
  without payload, for every TLV locator (first evaluation); after a failed read it
  hands the empty vector to the TLV locator and returns the error tag (second
  evaluation).
\<close>

theorem read_mifare_classic_tag_inverted:
  "result_of (read_mifare_classic_tag_' nfc scripted [0x04, 0x01, 0x02, 0x03]
                (auth_ok @ read_ok ndef_block, []))
     = Inr (NfcTag_type [0x04, 0x01, 0x02, 0x03] MIFARE_CLASSIC)
   \<and> result_of (read_mifare_classic_tag_' spec_nfc scripted [0x04, 0x01, 0x02, 0x03] (auth_ok, []))
     = Inr (NfcTag_type [0x04, 0x01, 0x02, 0x03] ERROR)
   \<and> result_of (read_tag_' spec_nfc scripted [0x04, 0x01, 0x02, 0x03]
                (auth_ok @ read_ok ndef_block @ auth_ok @ read_ok ndef_block, []))
     = Inr (NfcTag_data [0x04, 0x01, 0x02, 0x03] MIFARE_CLASSIC (drop 2 ndef_block))
   \<and> result_of (read_tag_' spec_nfc scripted [0x04, 0x01, 0x02, 0x03] (auth_ok, []))
     = Inr (NfcTag_type [0x04, 0x01, 0x02, 0x03] MIFARE_CLASSIC)"
proof -
  have 1: "result_of (read_mifare_classic_tag_' nfc scripted [0x04, 0x01, 0x02, 0x03]
                (auth_ok @ read_ok ndef_block, []))
     = Inr (NfcTag_type [0x04, 0x01, 0x02, 0x03] MIFARE_CLASSIC)"
    by (simp add: read_mifare_classic_tag_'_def auth_ok_def read_ok_def result_of_def
        auth_scripted_ok read_block_scripted_ok ndef_block_facts)
  have 2: "result_of (read_mifare_classic_tag_' spec_nfc scripted [0x04, 0x01, 0x02, 0x03] (auth_ok, []))
     = Inr (NfcTag_type [0x04, 0x01, 0x02, 0x03] ERROR)"
    by (simp add: read_mifare_classic_tag_'_def auth_ok_def result_of_def
        auth_scripted_ok read_block_scripted_end spec_nfc_def spec_decode_tlv_def)
  have 3: "result_of (read_tag_' spec_nfc scripted [0x04, 0x01, 0x02, 0x03]
                (auth_ok @ read_ok ndef_block @ auth_ok @ read_ok ndef_block, []))
     = Inr (NfcTag_data [0x04, 0x01, 0x02, 0x03] MIFARE_CLASSIC (drop 2 ndef_block))"
    by (simp add: read_tag_'_def auth_ok_def read_ok_def result_of_def spec_nfc_def
        read_mifare_classic_block_vec_def auth_scripted_ok read_block_scripted_ok
        ndef_block_facts buffer_size_3' read_blocks.simps [of _ 0] read_blocks.simps [of _ 16]
        read_tag_block_def first_block_4 BLOCK_SIZE_def)
  have 4: "result_of (read_tag_' spec_nfc scripted [0x04, 0x01, 0x02, 0x03] (auth_ok, []))
     = Inr (NfcTag_type [0x04, 0x01, 0x02, 0x03] MIFARE_CLASSIC)"
    by (simp add: read_tag_'_def auth_ok_def result_of_def spec_nfc_def
        read_mifare_classic_block_vec_def auth_scripted_ok read_block_scripted_end)
  from 1 2 3 4 show ?thesis by blast
qed

lemma read_tag_trim:
  "read_tag_' spec_nfc scripted [0x04, 0x01, 0x02, 0x03] (auth_ok @ read_ok ndef_block, [])
     = Inl OutOfRange"
  by (simp add: read_tag_'_def auth_ok_def read_ok_def spec_nfc_def
        read_mifare_classic_block_vec_def auth_scripted_ok read_block_scripted_ok
        auth_scripted_end read_block_scripted_end
        ndef_block_facts buffer_size_3' read_blocks.simps [of _ 0] read_blocks.simps [of _ 16]
        read_tag_block_def first_block_4 BLOCK_SIZE_def)

lemma classic_trim_out_of_range:
  "read_mifare_classic_tag_' spec_nfc scripted [0x04, 0x01, 0x02, 0x03]
     (auth_ok @ [ack_answer, answer 0x40 [0x03, 0x03, 0xD0, 0x00, 0x00, 0xFE],
                 answer 0x40 [0x03, 0x03, 0xD0, 0x00, 0x00, 0xFE]], [])
     = Inl OutOfRange"
  by (simp add: read_mifare_classic_tag_'_def auth_ok_def spec_nfc_def spec_decode_tlv_def
        auth_scripted_ok read_block_scripted_status
        auth_scripted_end read_block_scripted_end
        buffer_size_20 read_blocks.simps [of _ 0] read_blocks.simps [of _ 16]
        read_mifare_classic_tag_block_def first_block_4 BLOCK_SIZE_def)

text \<open>
  Claim C10. The claim: the buffer accumulated by the read loop always holds at least
  \<open>message_start_index\<close> bytes when it is trimmed. A failed block read adds nothing
  to the buffer, and nothing is tested before the trim. Here the tag answers the
  authentication and the first read of block 4 (empty NDEF message: message length 3,
  start index 2, one block to read) and then leaves the field: the loop reads nothing
  and \<open>read_tag_\<close> erases 2 bytes from an empty vector. The same happens in
  \<open>read_mifare_classic_tag_\<close>, which reaches its loop when the first read returns
  \<open>false\<close> with a leftover that starts with a TLV header.
\<close>

theorem read_tag_trim_out_of_range:
  "read_tag_' spec_nfc scripted [0x04, 0x01, 0x02, 0x03] (auth_ok @ read_ok ndef_block, [])
     = Inl OutOfRange
   \<and> read_mifare_classic_tag_' spec_nfc scripted [0x04, 0x01, 0x02, 0x03]
       (auth_ok @ [ack_answer, answer 0x40 [0x03, 0x03, 0xD0, 0x00, 0x00, 0xFE],
                   answer 0x40 [0x03, 0x03, 0xD0, 0x00, 0x00, 0xFE]], [])
     = Inl OutOfRange"
  using read_tag_trim classic_trim_out_of_range by blast

lemma degraded_read:
  "result_of (read_tag_' spec_nfc scripted [0x04, 0x01, 0x02, 0x03]
                (auth_ok @ read_ok long_block @ auth_ok @ read_ok long_block, []))
     = Inr (NfcTag_data [0x04, 0x01, 0x02, 0x03] MIFARE_CLASSIC (drop 2 long_block))
   \<and> result_of (read_tag_' spec_nfc scripted [0x04, 0x01, 0x02, 0x03]
                (auth_ok @ read_ok long_block, []))
     = Inl OutOfRange"
proof -
  have 1: "result_of (read_tag_' spec_nfc scripted [0x04, 0x01, 0x02, 0x03]
                (auth_ok @ read_ok long_block @ auth_ok @ read_ok long_block, []))
     = Inr (NfcTag_data [0x04, 0x01, 0x02, 0x03] MIFARE_CLASSIC (drop 2 long_block))"
    by (simp add: read_tag_'_def auth_ok_def read_ok_def spec_nfc_def result_of_def
        read_mifare_classic_block_vec_def auth_scripted_ok read_block_scripted_ok
        auth_scripted_end read_block_scripted_end
        long_block_facts buffer_size_20 read_blocks.simps [of _ 0] read_blocks.simps [of _ 16]
        read_blocks.simps [of _ 32]
        read_tag_block_def first_block_4 first_block_5 adv_vals BLOCK_SIZE_def)
  have 2: "result_of (read_tag_' spec_nfc scripted [0x04, 0x01, 0x02, 0x03]
                (auth_ok @ read_ok long_block, []))
     = Inl OutOfRange"
    by (simp add: read_tag_'_def auth_ok_def read_ok_def spec_nfc_def result_of_def
        read_mifare_classic_block_vec_def auth_scripted_ok read_block_scripted_ok
        auth_scripted_end read_block_scripted_end
        long_block_facts buffer_size_20 read_blocks.simps [of _ 0] read_blocks.simps [of _ 16]
        read_blocks.simps [of _ 32]
        read_tag_block_def first_block_4 first_block_5 adv_vals BLOCK_SIZE_def)
  from 1 2 show ?thesis by blast
qed

lemma write_aborts:
  "write_mifare_classic_tag_' scripted [0x04, 0x01, 0x02, 0x03] (replicate 20 0xAA)
      (auth_ok @ [None] @ write_ok, [])
     = Inr (False, (write_ok,
          [command_frame ([0x40, 0x01, 0x60, 0x04] @ NDEF_KEY @ [0x04, 0x01, 0x02, 0x03]),
           [0x00, 0x00, 0xFF, 0xFF, 0x00, 0x00],
           command_frame ([0x40, 0x01, 0xA0, 0x04, 0x03, 0x14] @ replicate 14 0xAA)]))
   \<and> write_mifare_classic_tag_' scripted [0x04, 0x01, 0x02, 0x03] (replicate 20 0xAA)
      ([ack_answer, answer 0x40 [0x14], answer 0x40 [0x14]] @ write_ok, [])
     = Inr (False, (write_ok,
          [command_frame ([0x40, 0x01, 0x60, 0x04] @ NDEF_KEY @ [0x04, 0x01, 0x02, 0x03]),
           [0x00, 0x00, 0xFF, 0xFF, 0x00, 0x00]]))"
  by (simp add: write_mifare_classic_tag_'_def write_buffer_20 buffer_size_20 auth_ok_def
      write_blocks.simps [of _ _ 0] write_tag_block_def first_block_4 auth_scripted_ok
      auth_scripted_status write_block_scripted_timeout BLOCK_SIZE_def MIFARE_CMD_AUTH_A_def
      NDEF_KEY_def)

lemma classic_degraded_read:
  "result_of (read_mifare_classic_tag_' spec_nfc scripted [0x04, 0x01, 0x02, 0x03]
                (auth_ok @ [ack_answer, answer 0x40 [0x03, 0x14], answer 0x40 [0x03, 0x14]]
                   @ auth_ok @ read_ok long_block, []))
     = Inr (NfcTag_data [0x04, 0x01, 0x02, 0x03] MIFARE_CLASSIC (drop 2 long_block))
   \<and> result_of (read_mifare_classic_tag_' spec_nfc scripted [0x04, 0x01, 0x02, 0x03]
                (auth_ok @ [ack_answer, answer 0x40 [0x03, 0x14], answer 0x40 [0x03, 0x14]], []))
     = Inl OutOfRange"
proof -
  have 1: "result_of (read_mifare_classic_tag_' spec_nfc scripted [0x04, 0x01, 0x02, 0x03]
                (auth_ok @ [ack_answer, answer 0x40 [0x03, 0x14], answer 0x40 [0x03, 0x14]]
                   @ auth_ok @ read_ok long_block, []))
     = Inr (NfcTag_data [0x04, 0x01, 0x02, 0x03] MIFARE_CLASSIC (drop 2 long_block))"
    by (simp add: read_mifare_classic_tag_'_def auth_ok_def read_ok_def spec_nfc_def
        spec_decode_tlv_def result_of_def
        auth_scripted_ok read_block_scripted_ok read_block_scripted_status
        auth_scripted_end read_block_scripted_end
        long_block_facts buffer_size_20 read_blocks.simps [of _ 0] read_blocks.simps [of _ 16]
        read_blocks.simps [of _ 32]
        read_mifare_classic_tag_block_def first_block_4 first_block_5 adv_vals BLOCK_SIZE_def)
  have 2: "result_of (read_mifare_classic_tag_' spec_nfc scripted [0x04, 0x01, 0x02, 0x03]
                (auth_ok @ [ack_answer, answer 0x40 [0x03, 0x14], answer 0x40 [0x03, 0x14]], []))
     = Inl OutOfRange"
    by (simp add: read_mifare_classic_tag_'_def auth_ok_def read_ok_def spec_nfc_def
        spec_decode_tlv_def result_of_def
        auth_scripted_ok read_block_scripted_ok read_block_scripted_status
        auth_scripted_end read_block_scripted_end
        long_block_facts buffer_size_20 read_blocks.simps [of _ 0] read_blocks.simps [of _ 16]
        read_blocks.simps [of _ 32]
        read_mifare_classic_tag_block_def first_block_4 first_block_5 adv_vals BLOCK_SIZE_def)
  from 1 2 show ?thesis by blast
qed

text \<open>
  Claim C8. The claim: a failed block read in the read loop only leaves that block out
  and the read still returns a tag; a failed authentication or block write in the
  write loop ends the write with failure, and nothing is written after it. The loops
  do so (lemmas \<open>read_blocks_continue\<close>, \<open>write_blocks_abort\<close> and the lemmas on
  their bodies). Here the NDEF message has 20 bytes in two blocks. When the read of
  the second block times out, \<open>read_tag_\<close> and \<open>read_mifare_classic_tag_\<close> return
  the tag with the 14 bytes they have. When both reads of the loop time out, the trim
  of the empty buffer is out of range and no tag is returned: the defect of C10.
  (\<open>read_mifare_classic_tag_\<close> reaches its loop when its first read returns
  \<open>false\<close>; here the device answers it with the two bytes 0x03 0x14.) A write whose
  first block write times out, or whose authentication is refused with status 0x14,
  returns \<open>false\<close>; the answers that the device had ready for further exchanges are
  left unread and no further frame has been sent.
\<close>

theorem multi_block_failures:
  "result_of (read_tag_' spec_nfc scripted [0x04, 0x01, 0x02, 0x03]
                (auth_ok @ read_ok long_block @ auth_ok @ read_ok long_block, []))
     = Inr (NfcTag_data [0x04, 0x01, 0x02, 0x03] MIFARE_CLASSIC (drop 2 long_block))
   \<and> result_of (read_tag_' spec_nfc scripted [0x04, 0x01, 0x02, 0x03]
                (auth_ok @ read_ok long_block, []))
     = Inl OutOfRange
   \<and> result_of (read_mifare_classic_tag_' spec_nfc scripted [0x04, 0x01, 0x02, 0x03]
                (auth_ok @ [ack_answer, answer 0x40 [0x03, 0x14], answer 0x40 [0x03, 0x14]]
                   @ auth_ok @ read_ok long_block, []))
     = Inr (NfcTag_data [0x04, 0x01, 0x02, 0x03] MIFARE_CLASSIC (drop 2 long_block))
   \<and> result_of (read_mifare_classic_tag_' spec_nfc scripted [0x04, 0x01, 0x02, 0x03]
                (auth_ok @ [ack_answer, answer 0x40 [0x03, 0x14], answer 0x40 [0x03, 0x14]], []))
     = Inl OutOfRange
   \<and> write_mifare_classic_tag_' scripted [0x04, 0x01, 0x02, 0x03] (replicate 20 0xAA)
      (auth_ok @ [None] @ write_ok, [])
     = Inr (False, (write_ok,
          [command_frame ([0x40, 0x01, 0x60, 0x04] @ NDEF_KEY @ [0x04, 0x01, 0x02, 0x03]),
           [0x00, 0x00, 0xFF, 0xFF, 0x00, 0x00],
           command_frame ([0x40, 0x01, 0xA0, 0x04, 0x03, 0x14] @ replicate 14 0xAA)]))
   \<and> write_mifare_classic_tag_' scripted [0x04, 0x01, 0x02, 0x03] (replicate 20 0xAA)
      ([ack_answer, answer 0x40 [0x14], answer 0x40 [0x14]] @ write_ok, [])
     = Inr (False, (write_ok,
          [command_frame ([0x40, 0x01, 0x60, 0x04] @ NDEF_KEY @ [0x04, 0x01, 0x02, 0x03]),
           [0x00, 0x00, 0xFF, 0xFF, 0x00, 0x00]]))"
  using degraded_read classic_degraded_read write_aborts by blast

end
